theory Spec2Isabelle
  imports Main "HOL-Library.Multiset"
begin

section \<open>Strings and errors\<close>

text \<open>
  Go strings and byte slices are byte sequences; both are modelled as \<open>string\<close>
  (a list of 8-bit characters). \<open>HasPrefix\<close> and \<open>Contains\<close> are the functions of
  package \<open>strings\<close>. \<open>ToLower\<close> lowers the ASCII letters and leaves every other byte
  as it is: it agrees with \<open>strings.ToLower\<close> on messages without upper-case letters
  outside ASCII.
\<close>

type_synonym bytes = string

fun HasPrefix :: "string \<Rightarrow> string \<Rightarrow> bool" where
  "HasPrefix s [] = True"
| "HasPrefix [] (p # ps) = False"
| "HasPrefix (c # s) (p # ps) = (c = p \<and> HasPrefix s ps)"

fun Contains :: "string \<Rightarrow> string \<Rightarrow> bool" where
  "Contains [] sub = (sub = [])"
| "Contains (c # s) sub = (HasPrefix (c # s) sub \<or> Contains s sub)"

definition lower_char :: "char \<Rightarrow> char" where
  "lower_char c =
     (let n = (of_char c :: nat) in if 65 \<le> n \<and> n \<le> 90 then char_of (n + 32) else c)"

definition ToLower :: "string \<Rightarrow> string" where
  "ToLower s = map lower_char s"

text \<open>Decimal printing of an integer, as the verb \<open>%d\<close> of \<open>fmt\<close> prints it.\<close>

definition digit_char :: "nat \<Rightarrow> char" where
  "digit_char d = char_of (48 + d)"

function digits :: "nat \<Rightarrow> string" where
  "digits n = (if n < 10 then [digit_char n] else digits (n div 10) @ [digit_char (n mod 10)])"
  by pat_completeness auto
termination
  by (relation "measure id") auto

definition itoa :: "int \<Rightarrow> string" where
  "itoa i = (if i < 0 then CHR ''-'' # digits (nat (- i)) else digits (nat i))"

text \<open>
  A Go error is its message together with what \<open>errors.Is\<close> and \<open>errors.As\<close>
  find in its chain. \<open>%w\<close> keeps the chain and prefixes the message; \<open>%v\<close> and
  \<open>fmt.Errorf\<close> without an error argument give a plain error. A nil error is \<open>None\<close>.
\<close>

record go_error =
  msg :: string
  is_Canceled :: bool
  is_DeadlineExceeded :: bool
  as_net_Error :: "(bool \<times> bool) option"
  is_ECONNREFUSED :: bool
  is_ECONNRESET :: bool
  is_ETIMEDOUT :: bool
  as_DNSError :: "bool option"

definition plain_error :: "string \<Rightarrow> go_error" where
  "plain_error m =
     \<lparr>msg = m, is_Canceled = False, is_DeadlineExceeded = False, as_net_Error = None,
      is_ECONNREFUSED = False, is_ECONNRESET = False, is_ETIMEDOUT = False,
      as_DNSError = None\<rparr>"

definition wrap_error :: "string \<Rightarrow> go_error \<Rightarrow> go_error" where
  "wrap_error prefix e = e\<lparr>msg := prefix @ msg e\<rparr>"


definition context_DeadlineExceeded :: go_error where
  "context_DeadlineExceeded =
     (plain_error ''context deadline exceeded'')
       \<lparr>is_DeadlineExceeded := True, as_net_Error := Some (True, True)\<rparr>"

text \<open>The error of \<open>fmt.Errorf("unexpected status code: %d", resp.StatusCode)\<close>.\<close>

definition unexpected_status :: "int \<Rightarrow> go_error" where
  "unexpected_status code = plain_error (''unexpected status code: '' @ itoa code)"

section \<open>Retry classification (pkg/sync/retry.go)\<close>

definition retryablePatterns :: "string list" where
  "retryablePatterns =
     [''timeout'', ''temporary'', ''connection reset'', ''connection refused'',
      ''too many requests'', ''rate limit'', ''service unavailable'', ''bad gateway'',
      ''gateway timeout'']"

primrec matches_pattern :: "string \<Rightarrow> string list \<Rightarrow> bool" where
  "matches_pattern errMsg [] = False"
| "matches_pattern errMsg (pattern # rest) =
     (if Contains errMsg pattern then True else matches_pattern errMsg rest)"

definition isRetryableError :: "go_error option \<Rightarrow> bool" where
  "isRetryableError err =
     (case err of
        None \<Rightarrow> False
      | Some e \<Rightarrow>
          if is_Canceled e \<or> is_DeadlineExceeded e then False
          else (case as_net_Error e of
            Some (tmo, tmp) \<Rightarrow> tmo \<or> tmp
          | None \<Rightarrow>
              if is_ECONNREFUSED e \<or> is_ECONNRESET e \<or> is_ETIMEDOUT e then True
              else (case as_DNSError e of
                Some tmp \<Rightarrow> tmp
              | None \<Rightarrow>
                  (let errMsg = ToLower (msg e) in
                   if matches_pattern errMsg retryablePatterns then True
                   else if Contains errMsg ''status code'' then
                     (if Contains errMsg ''429'' \<or> Contains errMsg ''500'' \<or>
                         Contains errMsg ''502'' \<or> Contains errMsg ''503'' \<or>
                         Contains errMsg ''504'' then True
                      else if Contains errMsg ''400'' \<or> Contains errMsg ''401'' \<or>
                         Contains errMsg ''403'' \<or> Contains errMsg ''404'' then False
                      else False)
                   else False))))"

section \<open>Retry with exponential backoff (pkg/sync/retry.go)\<close>

text \<open>
  \<open>time.Duration\<close> is a signed 64-bit count of nanoseconds: \<open>int64\<close> wraps an
  integer into that range, and \<open>backoff *= 2\<close> is \<open>int64 (backoff * 2)\<close>.
\<close>

definition int64 :: "int \<Rightarrow> int" where
  "int64 x = (x + 2 ^ 63) mod 2 ^ 64 - 2 ^ 63"

record RetryConfig =
  MaxAttempts :: int
  InitialInterval :: int
  MaxInterval :: int

definition DefaultRetryConfig :: RetryConfig where
  "DefaultRetryConfig =
     \<lparr>MaxAttempts = 5, InitialInterval = 1000000000, MaxInterval = 30000000000\<rparr>"

text \<open>
  The operation \<open>fn\<close> is a closure over mutable state \<open>'s\<close>. The \<open>select\<close>
  between \<open>time.After(backoff)\<close> and \<open>ctx.Done()\<close> is the function \<open>wait\<close>: it
  answers \<open>None\<close> when the timer fires and \<open>Some (ctx.Err())\<close> when the context is
  done first. The trace records, in order, every invocation of \<open>fn\<close> and every
  duration handed to \<open>time.After\<close>.
\<close>

datatype retry_event = Invoke | Sleep int

definition max_retries_error :: "int \<Rightarrow> go_error option \<Rightarrow> go_error" where
  "max_retries_error n lastErr =
     (case lastErr of
        None \<Rightarrow> plain_error (''max retries ('' @ itoa n @ '') exceeded: %!w(<nil>)'')
      | Some e \<Rightarrow> wrap_error (''max retries ('' @ itoa n @ '') exceeded: '') e)"

definition next_backoff :: "RetryConfig \<Rightarrow> int \<Rightarrow> int" where
  "next_backoff config backoff =
     (let doubled = int64 (backoff * 2)
      in if doubled > MaxInterval config then MaxInterval config else doubled)"

function retry_loop ::
  "RetryConfig \<Rightarrow> ('s \<Rightarrow> go_error option \<times> 's) \<Rightarrow> (int \<Rightarrow> 's \<Rightarrow> go_error option \<times> 's) \<Rightarrow>
   int \<Rightarrow> int \<Rightarrow> go_error option \<Rightarrow> retry_event list \<Rightarrow> 's \<Rightarrow>
   go_error option \<times> retry_event list \<times> 's" where
  "retry_loop config fn wait attempt backoff lastErr trace s =
     (if attempt \<le> MaxAttempts config then
        (case fn s of
           (None, s1) \<Rightarrow> (None, trace @ [Invoke], s1)
         | (Some err, s1) \<Rightarrow>
             if \<not> isRetryableError (Some err) then
               (Some (wrap_error ''non-retryable error: '' err), trace @ [Invoke], s1)
             else if attempt \<ge> MaxAttempts config then
               (Some (max_retries_error (MaxAttempts config) (Some err)), trace @ [Invoke], s1)
             else
               (case wait backoff s1 of
                  (Some ctxErr, s2) \<Rightarrow> (Some ctxErr, trace @ [Invoke, Sleep backoff], s2)
                | (None, s2) \<Rightarrow>
                    retry_loop config fn wait (attempt + 1) (next_backoff config backoff)
                      (Some err) (trace @ [Invoke, Sleep backoff]) s2))
      else (Some (max_retries_error (MaxAttempts config) lastErr), trace, s))"
  by pat_completeness auto
termination
  by (relation "measure (\<lambda>(config, fn, wait, attempt, backoff, lastErr, trace, s).
        nat (MaxAttempts config - attempt))") auto

definition RetryWithBackoff ::
  "RetryConfig \<Rightarrow> ('s \<Rightarrow> go_error option \<times> 's) \<Rightarrow> (int \<Rightarrow> 's \<Rightarrow> go_error option \<times> 's) \<Rightarrow>
   's \<Rightarrow> go_error option \<times> retry_event list \<times> 's" where
  "RetryWithBackoff config fn wait s =
     retry_loop config fn wait 1 (InitialInterval config) None [] s"







section \<open>Tag filter (pkg/filter/filter.go)\<close>

text \<open>
  A compiled \<open>*regexp.Regexp\<close> is used only through \<open>MatchString\<close> and is modelled as
  that predicate; \<open>regexp.Compile\<close> is a parameter of \<open>NewFilter\<close>. A \<open>time.Time\<close> is
  an instant, an integer count of nanoseconds, and \<open>t.After(u)\<close> is \<open>u < t\<close>.
\<close>

type_synonym Regexp = "string \<Rightarrow> bool"

record Filter =
  Include :: "Regexp list"
  Exclude :: "Regexp list"
  Latest :: int

record TagInfo =
  Name :: string
  Updated :: int

definition After :: "int \<Rightarrow> int \<Rightarrow> bool" where
  "After t u = (u < t)"

primrec compile_all :: "(string \<Rightarrow> go_error + Regexp) \<Rightarrow> string list \<Rightarrow> go_error + Regexp list" where
  "compile_all Compile [] = Inr []"
| "compile_all Compile (pattern # rest) =
     (case Compile pattern of
        Inl err \<Rightarrow> Inl err
      | Inr re \<Rightarrow> (case compile_all Compile rest of
                    Inl err \<Rightarrow> Inl err
                  | Inr res \<Rightarrow> Inr (re # res)))"

definition NewFilter ::
  "(string \<Rightarrow> go_error + Regexp) \<Rightarrow> string list \<Rightarrow> string list \<Rightarrow> int \<Rightarrow> go_error + Filter" where
  "NewFilter Compile include exclude latest =
     (case compile_all Compile include of
        Inl err \<Rightarrow> Inl err
      | Inr inc \<Rightarrow> (case compile_all Compile exclude of
                     Inl err \<Rightarrow> Inl err
                   | Inr exc \<Rightarrow> Inr \<lparr>Include = inc, Exclude = exc, Latest = latest\<rparr>))"

primrec any_match :: "Regexp list \<Rightarrow> string \<Rightarrow> bool" where
  "any_match [] tag = False"
| "any_match (re # rest) tag = (if re tag then True else any_match rest tag)"

definition Match :: "Filter \<Rightarrow> string \<Rightarrow> bool" where
  "Match f tag =
     (if any_match (Exclude f) tag then False
      else if length (Include f) = 0 then True
      else if any_match (Include f) tag then True
      else False)"

text \<open>
  \<open>sort.Slice\<close> is a parameter of \<open>FilterTags\<close>: the standard library promises a
  permutation of the slice that is ordered by \<open>less\<close>, and no more (the sort is not
  stable).
\<close>

definition FilterTags ::
  "((TagInfo \<Rightarrow> TagInfo \<Rightarrow> bool) \<Rightarrow> TagInfo list \<Rightarrow> TagInfo list) \<Rightarrow> Filter \<Rightarrow>
   TagInfo list \<Rightarrow> string list" where
  "FilterTags sort_Slice f tags =
     (let matched = filter (\<lambda>tag. Match f (Name tag)) tags;
          matched = sort_Slice (\<lambda>a b. After (Updated a) (Updated b)) matched;
          matched = (if Latest f > 0 \<and> int (length matched) > Latest f
                     then take (nat (Latest f)) matched else matched)
      in map Name matched)"

text \<open>
  The filter in the words of the specification: a tag survives when no exclude
  expression matches it and, if there are include expressions, one of them does.
\<close>

definition survives :: "Filter \<Rightarrow> string \<Rightarrow> bool" where
  "survives f tag =
     ((\<nexists>re. re \<in> set (Exclude f) \<and> re tag) \<and>
      (Include f = [] \<or> (\<exists>re. re \<in> set (Include f) \<and> re tag)))"

text \<open>
  The insertion sort that \<open>sort.Slice\<close> runs on a slice of fewer than twelve elements:
  each element moves left past the neighbours it is \<open>less\<close> than.
\<close>

definition insert_left :: "('a \<Rightarrow> 'a \<Rightarrow> bool) \<Rightarrow> 'a list \<Rightarrow> 'a \<Rightarrow> 'a list" where
  "insert_left less_fn sorted_part x =
     rev (dropWhile (less_fn x) (rev sorted_part)) @ [x] @ rev (takeWhile (less_fn x) (rev sorted_part))"

definition insertion_sort :: "('a \<Rightarrow> 'a \<Rightarrow> bool) \<Rightarrow> 'a list \<Rightarrow> 'a list" where
  "insertion_sort less_fn xs = foldl (insert_left less_fn) [] xs"

text \<open>A concrete filter and tag list: include \<open>^v\<close>, exclude \<open>rc\<close>, keep the latest one.\<close>

definition example_filter :: Filter where
  "example_filter =
     \<lparr>Include = [\<lambda>s. HasPrefix s ''v''], Exclude = [\<lambda>s. Contains s ''rc''], Latest = 1\<rparr>"

definition example_tags :: "TagInfo list" where
  "example_tags =
     [\<lparr>Name = ''v1'', Updated = 10\<rparr>, \<lparr>Name = ''v2-rc'', Updated = 30\<rparr>,
      \<lparr>Name = ''v3'', Updated = 20\<rparr>, \<lparr>Name = ''dev'', Updated = 40\<rparr>]"

section \<open>Registry client (pkg/registry)\<close>

subsection \<open>Manifests and descriptors\<close>

record Platform =
  Architecture :: string
  OS :: string
  OSVersion :: string
  OSFeatures :: "string list"
  Variant :: string

record Descriptor =
  desc_MediaType :: string
  desc_Size :: int
  desc_Digest :: string
  desc_Platform :: "Platform option"

record ManifestEntry =
  entry_MediaType :: string
  entry_Size :: int
  entry_Digest :: string
  entry_Platform :: Platform

record Manifest =
  SchemaVersion :: int
  MediaType :: string
  Config :: Descriptor
  Layers :: "Descriptor list"
  Manifests :: "ManifestEntry list"
  Raw :: bytes
  ContentDigest :: string

definition IsManifestList :: "Manifest \<Rightarrow> bool" where
  "IsManifestList m =
     (Contains (MediaType m) ''manifest.list'' \<or> Contains (MediaType m) ''image.index'')"

definition GetAllBlobs :: "Manifest \<Rightarrow> Descriptor list" where
  "GetAllBlobs m =
     (let blobs = [];
          blobs = (if desc_Digest (Config m) \<noteq> '''' then blobs @ [Config m] else blobs);
          blobs = blobs @ Layers m
      in blobs)"

definition GetManifestMediaType :: "string list" where
  "GetManifestMediaType =
     [''application/vnd.docker.distribution.manifest.v2+json'',
      ''application/vnd.docker.distribution.manifest.list.v2+json'',
      ''application/vnd.oci.image.manifest.v1+json'',
      ''application/vnd.oci.image.index.v1+json'']"

primrec Join :: "string list \<Rightarrow> string \<Rightarrow> string" where
  "Join [] sep = ''''"
| "Join (x # xs) sep = (if xs = [] then x else x @ sep @ Join xs sep)"

definition buildAcceptHeader :: string where
  "buildAcceptHeader = Join GetManifestMediaType '',''"

subsection \<open>HTTP exchanges\<close>

text \<open>
  An \<open>io.Reader\<close> is the bytes it yields followed by end of input or by an error;
  \<open>io.ReadAll\<close> returns both. A request is what the client hands to the HTTP layer. A
  response is its status, its header lookup (\<open>Header.Get\<close>, the empty string for an
  absent header) and its body.

  The remote registries, the network and the clock are a state \<open>'w\<close>. The environment
  holds what the program calls outside its own code. \<open>roundtrip\<close> is
  \<open>c.HTTPClient.Do\<close>. A request body is a reader that the exchange consumes: \<open>unread\<close>
  gives the reader as the exchange left it, from the request and the world after the
  exchange (\<open>None\<close> for a request without body). \<open>rate_Wait\<close> is \<open>Wait\<close> of
  \<open>golang.org/x/time/rate\<close>, which returns an error when the context ends first. The
  remaining fields are functions of the standard library: \<open>json.Unmarshal\<close> into a
  \<open>Manifest\<close>, the JSON decoding of a tag list and of a token response (the fields
  \<open>token\<close> and \<open>access_token\<close>), \<open>http.NewRequestWithContext\<close> (which may refuse a
  method or a URL), the sequence \<open>url.Parse\<close>, \<open>Query()\<close>, \<open>Set\<close>, \<open>Encode\<close>, \<open>String\<close>
  with the one key \<open>digest\<close> of \<open>completeUpload\<close> and with the keys of
  \<open>getBearerToken\<close>, the \<open>select\<close> on a timer and the context of the retry loop,
  \<open>regexp.Compile\<close>, \<open>sort.Slice\<close> and \<open>time.Now\<close>.

  The connection state pairs the world with the exchanges made so far, each a request
  with the response or error it received.
\<close>

datatype reader = Reader bytes "go_error option"

fun ReadAll :: "reader \<Rightarrow> bytes \<times> go_error option" where
  "ReadAll (Reader data err) = (data, err)"

record Request =
  req_Method :: string
  req_URL :: string
  req_Header :: "(string \<times> string) list"
  req_Body :: "reader option"
  req_ContentLength :: "int option"
  req_BasicAuth :: "(string \<times> string) option"

record Response =
  StatusCode :: int
  Header :: "string \<Rightarrow> string"
  Body :: reader

record 'w Env =
  roundtrip :: "Request \<Rightarrow> 'w \<Rightarrow> (go_error + Response) \<times> 'w"
  unread :: "Request \<Rightarrow> 'w \<Rightarrow> reader option"
  rate_Wait :: "'w \<Rightarrow> go_error option \<times> 'w"
  Unmarshal :: "bytes \<Rightarrow> go_error + Manifest"
  DecodeTags :: "reader \<Rightarrow> go_error + string list"
  DecodeToken :: "reader \<Rightarrow> go_error + string \<times> string"
  NewRequest :: "string \<Rightarrow> string \<Rightarrow> go_error option"
  set_digest_query :: "string \<Rightarrow> string \<Rightarrow> go_error + string"
  set_query :: "string \<Rightarrow> (string \<times> string) list \<Rightarrow> go_error + string"
  select_timer :: "int \<Rightarrow> 'w \<Rightarrow> go_error option \<times> 'w"
  Compile :: "string \<Rightarrow> go_error + Regexp"
  sort_Slice' :: "(TagInfo \<Rightarrow> TagInfo \<Rightarrow> bool) \<Rightarrow> TagInfo list \<Rightarrow> TagInfo list"
  Now :: "'w \<Rightarrow> int \<times> 'w"

record 'w conn =
  world :: 'w
  exchanges :: "(Request \<times> (go_error + Response)) list"

text \<open>
  A client is built by \<open>NewClient\<close>, whose limiter is enabled when the configured rate
  is positive.
\<close>

record Client =
  BaseURL :: string
  Username :: string
  Password :: string
  Limiter_enabled :: bool

definition send :: "'w Env \<Rightarrow> Request \<Rightarrow> 'w conn \<Rightarrow> (go_error + Response) \<times> 'w conn" where
  "send env req s =
     (case roundtrip env req (world s) of
        (result, w) \<Rightarrow> (result, \<lparr>world = w, exchanges = exchanges s @ [(req, result)]\<rparr>))"

definition status_of :: "go_error + Response \<Rightarrow> int option" where
  "status_of result = (case result of Inl err \<Rightarrow> None | Inr resp \<Rightarrow> Some (StatusCode resp))"

definition basic_auth :: "Client \<Rightarrow> (string \<times> string) option" where
  "basic_auth c =
     (if Username c \<noteq> '''' \<and> Password c \<noteq> '''' then Some (Username c, Password c) else None)"

definition Limiter_Wait :: "'w Env \<Rightarrow> Client \<Rightarrow> 'w conn \<Rightarrow> go_error option \<times> 'w conn" where
  "Limiter_Wait env c s =
     (if \<not> Limiter_enabled c then (None, s)
      else (case rate_Wait env (world s) of (r, w) \<Rightarrow> (r, s\<lparr>world := w\<rparr>)))"

subsection \<open>Authentication (manifest.go)\<close>

text \<open>
  The functions of package \<open>strings\<close> that \<open>parseAuthHeader\<close> uses. \<open>TrimSpace\<close> trims
  the ASCII white space: it agrees with \<open>strings.TrimSpace\<close> on headers that neither
  begin nor end with white space outside ASCII. The map of parameters is a function
  that gives the empty string for an absent key, which is what the lookups of
  \<open>getBearerToken\<close> read.
\<close>

definition TrimPrefix :: "string \<Rightarrow> string \<Rightarrow> string" where
  "TrimPrefix s prefix = (if HasPrefix s prefix then drop (length prefix) s else s)"

fun split_on :: "char \<Rightarrow> string \<Rightarrow> string list" where
  "split_on sep [] = [[]]"
| "split_on sep (c # cs) =
     (if c = sep then [] # split_on sep cs
      else (case split_on sep cs of [] \<Rightarrow> [[c]] | w # ws \<Rightarrow> (c # w) # ws))"

definition is_space :: "char \<Rightarrow> bool" where
  "is_space c = ((of_char c :: nat) \<in> {9, 10, 11, 12, 13, 32})"

definition TrimSpace :: "string \<Rightarrow> string" where
  "TrimSpace s = rev (dropWhile is_space (rev (dropWhile is_space s)))"

definition Trim :: "string \<Rightarrow> string \<Rightarrow> string" where
  "Trim s cutset =
     rev (dropWhile (\<lambda>c. c \<in> set cutset) (rev (dropWhile (\<lambda>c. c \<in> set cutset) s)))"

definition SplitN2 :: "string \<Rightarrow> char \<Rightarrow> string list" where
  "SplitN2 s sep =
     (if sep \<in> set s then [takeWhile (\<lambda>c. c \<noteq> sep) s, tl (dropWhile (\<lambda>c. c \<noteq> sep) s)]
      else [s])"

definition parseAuthHeader :: "string \<Rightarrow> string \<Rightarrow> string" where
  "parseAuthHeader header =
     (let header = TrimPrefix header ''Bearer '';
          parts = split_on CHR '','' header
      in foldl (\<lambda>params part.
           (let part = TrimSpace part;
                kv = SplitN2 part CHR ''=''
            in if length kv = 2 then
                 (let key = TrimSpace (kv ! 0);
                      v = Trim (TrimSpace (kv ! 1)) [CHR 0x22]
                  in params(key := v))
               else params))
         (\<lambda>key. '''') parts)"

definition getBearerToken ::
  "'w Env \<Rightarrow> Client \<Rightarrow> string \<Rightarrow> string \<Rightarrow> 'w conn \<Rightarrow> (go_error + string) \<times> 'w conn" where
  "getBearerToken env c authHeader requestPath s =
     (let params = parseAuthHeader authHeader;
          realm = params ''realm''
      in if realm = '''' then (Inl (plain_error ''no realm in WWW-Authenticate header''), s)
         else
           (case set_query env realm
                   ((if params ''service'' \<noteq> '''' then [(''service'', params ''service'')] else []) @
                    (if params ''scope'' \<noteq> '''' then [(''scope'', params ''scope'')] else [])) of
              Inl err \<Rightarrow> (Inl err, s)
            | Inr tokenURL \<Rightarrow>
                (case NewRequest env ''GET'' tokenURL of
                   Some err \<Rightarrow> (Inl err, s)
                 | None \<Rightarrow>
                     (let req = \<lparr>req_Method = ''GET'', req_URL = tokenURL, req_Header = [],
                                 req_Body = None, req_ContentLength = None,
                                 req_BasicAuth = basic_auth c\<rparr>
                      in case send env req s of
                           (Inl err, s1) \<Rightarrow> (Inl err, s1)
                         | (Inr resp, s1) \<Rightarrow>
                             if StatusCode resp \<noteq> 200 then
                               (Inl (plain_error (''token request failed: '' @
                                       itoa (StatusCode resp) @ '' '' @
                                       fst (ReadAll (Body resp)))), s1)
                             else
                               (case DecodeToken env (Body resp) of
                                  Inl err \<Rightarrow> (Inl err, s1)
                                | Inr (token, accessToken) \<Rightarrow>
                                    (Inr (if token \<noteq> '''' then token else accessToken),
                                     s1))))))"

text \<open>
  \<open>doRequest\<close> waits for the limiter, sends the request with basic authentication
  when both credentials are set, and after a 401 sends it once more: with basic
  authentication when the response names no challenge, with a bearer token
  otherwise. The second request is built from the same method, URL and headers, so
  \<open>http.NewRequestWithContext\<close> accepts it as it accepted the first, and from the same
  body reader, which by then holds what the first exchange left unread.
\<close>

definition doRequest ::
  "'w Env \<Rightarrow> Client \<Rightarrow> string \<Rightarrow> string \<Rightarrow> reader option \<Rightarrow> (string \<times> string) list \<Rightarrow>
   'w conn \<Rightarrow> (go_error + Response) \<times> 'w conn" where
  "doRequest env c method path body headers s =
     (case Limiter_Wait env c s of
        (Some err, s0) \<Rightarrow> (Inl err, s0)
      | (None, s0) \<Rightarrow>
          (let fullURL = BaseURL c @ path
           in case NewRequest env method fullURL of
                Some err \<Rightarrow> (Inl err, s0)
              | None \<Rightarrow>
                  (let req = \<lparr>req_Method = method, req_URL = fullURL, req_Header = headers,
                              req_Body = body, req_ContentLength = None,
                              req_BasicAuth = basic_auth c\<rparr>
                   in case send env req s0 of
                        (Inl err, s1) \<Rightarrow> (Inl err, s1)
                      | (Inr resp, s1) \<Rightarrow>
                          if StatusCode resp = 401 then
                            (let authHeader = Header resp ''WWW-Authenticate'';
                                 body = unread env req (world s1)
                             in if authHeader = '''' then
                                  send env
                                    \<lparr>req_Method = method, req_URL = fullURL,
                                     req_Header = headers, req_Body = body,
                                     req_ContentLength = None,
                                     req_BasicAuth = Some (Username c, Password c)\<rparr> s1
                                else
                                  (case getBearerToken env c authHeader path s1 of
                                     (Inl err, s2) \<Rightarrow>
                                       (Inl (wrap_error ''failed to get bearer token: '' err), s2)
                                   | (Inr token, s2) \<Rightarrow>
                                       send env
                                         \<lparr>req_Method = method, req_URL = fullURL,
                                          req_Header = headers @
                                            [(''Authorization'', ''Bearer '' @ token)],
                                          req_Body = body, req_ContentLength = None,
                                          req_BasicAuth = None\<rparr> s2))
                          else (Inr resp, s1))))"

text \<open>
  \<open>strconv.ParseInt(s, 10, 64)\<close> with the error dropped: 0 on a syntax error, the
  nearest bound of the 64-bit range on a range error.
\<close>

definition is_digit :: "char \<Rightarrow> bool" where
  "is_digit c = (48 \<le> (of_char c :: nat) \<and> (of_char c :: nat) \<le> 57)"

definition digits_value :: "string \<Rightarrow> int" where
  "digits_value ds = foldl (\<lambda>acc c. acc * 10 + int (of_char c - 48)) 0 ds"

definition ParseInt :: "string \<Rightarrow> int" where
  "ParseInt s =
     (let neg = (s \<noteq> [] \<and> hd s = CHR ''-'');
          ds = (if s \<noteq> [] \<and> (hd s = CHR ''+'' \<or> hd s = CHR ''-'') then tl s else s)
      in if ds = [] \<or> \<not> list_all is_digit ds then 0
         else if \<not> neg \<and> digits_value ds \<ge> 2 ^ 63 then 2 ^ 63 - 1
         else if neg \<and> digits_value ds > 2 ^ 63 then - (2 ^ 63)
         else if neg then - digits_value ds
         else digits_value ds)"

definition content_length :: "Response \<Rightarrow> int" where
  "content_length resp =
     (let contentLength = Header resp ''Content-Length''
      in if contentLength \<noteq> '''' then ParseInt contentLength else 0)"

subsection \<open>Manifest operations (manifest.go)\<close>

definition GetManifest ::
  "'w Env \<Rightarrow> Client \<Rightarrow> string \<Rightarrow> string \<Rightarrow> 'w conn \<Rightarrow> (go_error + Manifest) \<times> 'w conn" where
  "GetManifest env c repository reference s =
     (let path = ''/v2/'' @ repository @ ''/manifests/'' @ reference;
          headers = [(''Accept'', buildAcceptHeader)]
      in case doRequest env c ''GET'' path None headers s of
           (Inl err, s1) \<Rightarrow> (Inl err, s1)
         | (Inr resp, s1) \<Rightarrow>
             if StatusCode resp \<noteq> 200 then
               (Inl (plain_error (''failed to get manifest: '' @ itoa (StatusCode resp) @ '' '' @
                                   fst (ReadAll (Body resp)))), s1)
             else
               (case ReadAll (Body resp) of
                  (data, Some err) \<Rightarrow> (Inl err, s1)
                | (data, None) \<Rightarrow>
                    (case Unmarshal env data of
                       Inl err \<Rightarrow> (Inl (wrap_error ''failed to parse manifest: '' err), s1)
                     | Inr manifest \<Rightarrow>
                         (Inr (manifest\<lparr>Raw := data,
                                 ContentDigest := Header resp ''Docker-Content-Digest''\<rparr>),
                          s1))))"

definition ListTags ::
  "'w Env \<Rightarrow> Client \<Rightarrow> string \<Rightarrow> 'w conn \<Rightarrow> (go_error + string list) \<times> 'w conn" where
  "ListTags env c repository s =
     (let path = ''/v2/'' @ repository @ ''/tags/list''
      in case doRequest env c ''GET'' path None [] s of
           (Inl err, s1) \<Rightarrow> (Inl err, s1)
         | (Inr resp, s1) \<Rightarrow>
             if StatusCode resp \<noteq> 200 then
               (Inl (plain_error (''failed to list tags: '' @ itoa (StatusCode resp) @ '' '' @
                                   fst (ReadAll (Body resp)))), s1)
             else
               (case DecodeTags env (Body resp) of
                  Inl err \<Rightarrow> (Inl err, s1)
                | Inr tags \<Rightarrow> (Inr tags, s1)))"

definition PutManifest ::
  "'w Env \<Rightarrow> Client \<Rightarrow> string \<Rightarrow> string \<Rightarrow> Manifest \<Rightarrow> 'w conn \<Rightarrow>
   (go_error + string) \<times> 'w conn" where
  "PutManifest env c repository reference manifest s =
     (let path = ''/v2/'' @ repository @ ''/manifests/'' @ reference;
          headers = [(''Content-Type'', MediaType manifest)]
      in case doRequest env c ''PUT'' path (Some (Reader (Raw manifest) None)) headers s of
           (Inl err, s1) \<Rightarrow> (Inl err, s1)
         | (Inr resp, s1) \<Rightarrow>
             if StatusCode resp \<noteq> 201 \<and> StatusCode resp \<noteq> 200 then
               (Inl (plain_error (''failed to put manifest: '' @ itoa (StatusCode resp) @ '' '' @
                                   fst (ReadAll (Body resp)))), s1)
             else
               (let digest = Header resp ''Docker-Content-Digest'';
                    digest = (if digest = '''' then Header resp ''Location'' else digest)
                in (Inr digest, s1)))"

subsection \<open>Blob operations\<close>

definition BlobExists ::
  "'w Env \<Rightarrow> Client \<Rightarrow> string \<Rightarrow> string \<Rightarrow> 'w conn \<Rightarrow> (go_error + bool \<times> int) \<times> 'w conn" where
  "BlobExists env c repository digest s =
     (let path = ''/v2/'' @ repository @ ''/blobs/'' @ digest
      in case doRequest env c ''HEAD'' path None [] s of
           (Inl err, s1) \<Rightarrow> (Inl err, s1)
         | (Inr resp, s1) \<Rightarrow>
             if StatusCode resp = 200 then (Inr (True, content_length resp), s1)
             else if StatusCode resp = 404 then (Inr (False, 0), s1)
             else (Inl (unexpected_status (StatusCode resp)), s1))"

text \<open>
  On a status other than 200 \<open>GetBlob\<close> closes the body before it reads it, so the
  read yields no bytes and the message ends after the status and a space.
\<close>

definition GetBlob ::
  "'w Env \<Rightarrow> Client \<Rightarrow> string \<Rightarrow> string \<Rightarrow> 'w conn \<Rightarrow> (go_error + reader \<times> int) \<times> 'w conn" where
  "GetBlob env c repository digest s =
     (let path = ''/v2/'' @ repository @ ''/blobs/'' @ digest
      in case doRequest env c ''GET'' path None [] s of
           (Inl err, s1) \<Rightarrow> (Inl err, s1)
         | (Inr resp, s1) \<Rightarrow>
             if StatusCode resp \<noteq> 200 then
               (Inl (plain_error (''failed to get blob: '' @ itoa (StatusCode resp) @ '' '' @ '''')),
                s1)
             else (Inr (Body resp, content_length resp), s1))"

definition resolve_location :: "Client \<Rightarrow> string \<Rightarrow> string" where
  "resolve_location c location =
     (if \<not> HasPrefix location ''http'' then BaseURL c @ location else location)"

definition initiateUpload ::
  "'w Env \<Rightarrow> Client \<Rightarrow> string \<Rightarrow> string \<Rightarrow> 'w conn \<Rightarrow> (go_error + string) \<times> 'w conn" where
  "initiateUpload env c repository digest s =
     (let path = ''/v2/'' @ repository @ ''/blobs/uploads/'';
          path = (if digest \<noteq> '''' then path @ ''?mount='' @ digest @ ''&from='' @ repository
                  else path)
      in case doRequest env c ''POST'' path None [] s of
           (Inl err, s1) \<Rightarrow> (Inl err, s1)
         | (Inr resp, s1) \<Rightarrow>
             if StatusCode resp = 201 then (Inl (plain_error ''blob already exists''), s1)
             else if StatusCode resp \<noteq> 202 then
               (Inl (plain_error (''failed to initiate upload: '' @ itoa (StatusCode resp) @
                                   '' '' @ fst (ReadAll (Body resp)))), s1)
             else
               (let location = Header resp ''Location''
                in if location = '''' then
                     (Inl (plain_error ''no location header in response''), s1)
                   else (Inr (resolve_location c location), s1)))"

definition uploadContent ::
  "'w Env \<Rightarrow> Client \<Rightarrow> string \<Rightarrow> reader \<Rightarrow> int \<Rightarrow> 'w conn \<Rightarrow> (go_error + string) \<times> 'w conn" where
  "uploadContent env c uploadURL content size' s =
     (case NewRequest env ''PATCH'' uploadURL of
        Some err \<Rightarrow> (Inl err, s)
      | None \<Rightarrow>
          (let req = \<lparr>req_Method = ''PATCH'', req_URL = uploadURL,
                      req_Header =
                        [(''Content-Type'', ''application/octet-stream'')] @
                        (if size' > 0 then [(''Content-Length'', itoa size')] else []),
                      req_Body = Some content,
                      req_ContentLength = (if size' > 0 then Some size' else None),
                      req_BasicAuth = basic_auth c\<rparr>
           in case send env req s of
                (Inl err, s1) \<Rightarrow> (Inl err, s1)
              | (Inr resp, s1) \<Rightarrow>
                  if StatusCode resp \<noteq> 202 then
                    (Inl (plain_error (''failed to upload content: '' @ itoa (StatusCode resp) @
                                        '' '' @ fst (ReadAll (Body resp)))), s1)
                  else
                    (let location = Header resp ''Location''
                     in if location = '''' then
                          (Inl (plain_error ''no location header in PATCH response''), s1)
                        else (Inr (resolve_location c location), s1))))"

definition completeUpload ::
  "'w Env \<Rightarrow> Client \<Rightarrow> string \<Rightarrow> string \<Rightarrow> 'w conn \<Rightarrow> go_error option \<times> 'w conn" where
  "completeUpload env c uploadURL digest s =
     (case set_digest_query env uploadURL digest of
        Inl err \<Rightarrow> (Some err, s)
      | Inr u \<Rightarrow>
          (case NewRequest env ''PUT'' u of
             Some err \<Rightarrow> (Some err, s)
           | None \<Rightarrow>
               (let req = \<lparr>req_Method = ''PUT'', req_URL = u,
                           req_Header = [(''Content-Length'', ''0'')], req_Body = None,
                           req_ContentLength = None, req_BasicAuth = basic_auth c\<rparr>
                in case send env req s of
                     (Inl err, s1) \<Rightarrow> (Some err, s1)
                   | (Inr resp, s1) \<Rightarrow>
                       if StatusCode resp \<noteq> 201 then
                         (Some (plain_error (''failed to complete upload: '' @
                                  itoa (StatusCode resp) @ '' '' @ fst (ReadAll (Body resp)))), s1)
                       else (None, s1))))"

definition PutBlob ::
  "'w Env \<Rightarrow> Client \<Rightarrow> string \<Rightarrow> string \<Rightarrow> reader \<Rightarrow> int \<Rightarrow> 'w conn \<Rightarrow>
   go_error option \<times> 'w conn" where
  "PutBlob env c repository digest content size' s =
     (case initiateUpload env c repository digest s of
        (Inl err, s1) \<Rightarrow> (Some (wrap_error ''failed to initiate upload: '' err), s1)
      | (Inr uploadURL, s1) \<Rightarrow>
          (case uploadContent env c uploadURL content size' s1 of
             (Inl err, s2) \<Rightarrow> (Some (wrap_error ''failed to upload content: '' err), s2)
           | (Inr newUploadURL, s2) \<Rightarrow>
               (case completeUpload env c newUploadURL digest s2 of
                  (Some err, s3) \<Rightarrow> (Some (wrap_error ''failed to complete upload: '' err), s3)
                | (None, s3) \<Rightarrow> (None, s3))))"

definition MountBlob ::
  "'w Env \<Rightarrow> Client \<Rightarrow> string \<Rightarrow> string \<Rightarrow> string \<Rightarrow> 'w conn \<Rightarrow> (go_error + bool) \<times> 'w conn" where
  "MountBlob env c fromRepo toRepo digest s =
     (let path = ''/v2/'' @ toRepo @ ''/blobs/uploads/?mount='' @ digest @ ''&from='' @ fromRepo
      in case doRequest env c ''POST'' path None [] s of
           (Inl err, s1) \<Rightarrow> (Inl err, s1)
         | (Inr resp, s1) \<Rightarrow>
             if StatusCode resp = 201 then (Inr True, s1)
             else if StatusCode resp = 202 then (Inr False, s1)
             else (Inl (plain_error (''failed to mount blob: '' @ itoa (StatusCode resp) @ '' '' @
                                      fst (ReadAll (Body resp)))), s1))"

definition CopyBlob ::
  "'w Env \<Rightarrow> Client \<Rightarrow> Client \<Rightarrow> string \<Rightarrow> string \<Rightarrow> string \<Rightarrow> int \<Rightarrow> 'w conn \<Rightarrow>
   go_error option \<times> 'w conn" where
  "CopyBlob env source target sourceRepo targetRepo digest size' s =
     (case BlobExists env target targetRepo digest s of
        (Inl err, s1) \<Rightarrow> (Some (wrap_error ''failed to check blob existence: '' err), s1)
      | (Inr (exists, _), s1) \<Rightarrow>
          if exists then (None, s1)
          else
            (case MountBlob env target targetRepo targetRepo digest s1 of
               (Inr True, s2) \<Rightarrow> (None, s2)
             | (_, s2) \<Rightarrow>
                 (case GetBlob env source sourceRepo digest s2 of
                    (Inl err, s3) \<Rightarrow> (Some (wrap_error ''failed to download blob: '' err), s3)
                  | (Inr (reader, _), s3) \<Rightarrow>
                      (case PutBlob env target targetRepo digest reader size' s3 of
                         (Some err, s4) \<Rightarrow> (Some (wrap_error ''failed to upload blob: '' err), s4)
                       | (None, s4) \<Rightarrow> (None, s4)))))"

text \<open>
  The three requests of a monolithic upload as the specification describes them: the
  POST that initiates it, the PATCH that carries the bytes to the upload URL, and the
  PUT with the digest in the query and no content that commits it.
\<close>

definition initiate_request :: "Client \<Rightarrow> string \<Rightarrow> string \<Rightarrow> Request" where
  "initiate_request c repository digest =
     \<lparr>req_Method = ''POST'',
      req_URL = BaseURL c @ ''/v2/'' @ repository @ ''/blobs/uploads/'' @
        (if digest \<noteq> '''' then ''?mount='' @ digest @ ''&from='' @ repository else ''''),
      req_Header = [], req_Body = None, req_ContentLength = None,
      req_BasicAuth = basic_auth c\<rparr>"

definition patch_request :: "Client \<Rightarrow> string \<Rightarrow> reader \<Rightarrow> int \<Rightarrow> Request" where
  "patch_request c uploadURL content size' =
     \<lparr>req_Method = ''PATCH'', req_URL = uploadURL,
      req_Header = [(''Content-Type'', ''application/octet-stream'')] @
                   (if size' > 0 then [(''Content-Length'', itoa size')] else []),
      req_Body = Some content,
      req_ContentLength = (if size' > 0 then Some size' else None),
      req_BasicAuth = basic_auth c\<rparr>"

definition put_request :: "Client \<Rightarrow> string \<Rightarrow> Request" where
  "put_request c u =
     \<lparr>req_Method = ''PUT'', req_URL = u,
      req_Header = [(''Content-Length'', ''0'')], req_Body = None,
      req_ContentLength = None, req_BasicAuth = basic_auth c\<rparr>"

subsection \<open>A scripted world for concrete runs\<close>

text \<open>
  The world is the list of results still to come: every exchange takes the next one,
  whatever the request, reads the whole request body, and an exhausted script refuses
  the connection. The limiter never makes a caller wait. The manifest parser returns a
  fixed image manifest, a tag list is the body split at commas, a token response is
  the token itself, the URL functions accept every URL and add the query to a URL
  that has none (escaping the colon of a digest), the timer always fires before
  the context is done, a pattern compiles to the search for it as a substring, slices
  are sorted by insertion, and the clock stands at 0.
\<close>

definition response :: "int \<Rightarrow> (string \<times> string) list \<Rightarrow> bytes \<Rightarrow> Response" where
  "response code headers body =
     \<lparr>StatusCode = code,
      Header = (\<lambda>key. case map_of headers key of None \<Rightarrow> '''' | Some v \<Rightarrow> v),
      Body = Reader body None\<rparr>"

definition example_manifest :: Manifest where
  "example_manifest =
     \<lparr>SchemaVersion = 2,
      MediaType = ''application/vnd.docker.distribution.manifest.v2+json'',
      Config = \<lparr>desc_MediaType = ''application/vnd.docker.container.image.v1+json'',
                desc_Size = 7, desc_Digest = ''sha256:aaaaaaaa'', desc_Platform = None\<rparr>,
      Layers = [\<lparr>desc_MediaType = ''application/vnd.docker.image.rootfs.diff.tar.gzip'',
                 desc_Size = 12345678, desc_Digest = ''sha256:bbbbbbbb'',
                 desc_Platform = None\<rparr>],
      Manifests = [], Raw = [], ContentDigest = []\<rparr>"

definition scripted_env :: "(go_error + Response) list Env" where
  "scripted_env =
     \<lparr>roundtrip = (\<lambda>req w. case w of
                       [] \<Rightarrow> (Inl (plain_error ''connection refused''), [])
                     | r # rest \<Rightarrow> (r, rest)),
      unread = (\<lambda>req w. case req_Body req of
                  None \<Rightarrow> None
                | Some body \<Rightarrow> Some (Reader [] None)),
      rate_Wait = (\<lambda>w. (None, w)),
      Unmarshal = (\<lambda>data. Inr example_manifest),
      DecodeTags = (\<lambda>body. case ReadAll body of
                     (data, None) \<Rightarrow> Inr (split_on CHR '','' data)
                   | (data, Some err) \<Rightarrow> Inl err),
      DecodeToken = (\<lambda>body. case ReadAll body of
                      (data, None) \<Rightarrow> Inr (data, [])
                    | (data, Some err) \<Rightarrow> Inl err),
      NewRequest = (\<lambda>method u. None),
      set_digest_query = (\<lambda>u digest. Inr (u @ ''?digest='' @
                            concat (map (\<lambda>c. if c = CHR '':'' then ''%3A'' else [c]) digest))),
      set_query = (\<lambda>u query. Inr (u @ ''?'' @
                     Join (map (\<lambda>(k, v). k @ ''='' @ v) query) ''&'')),
      select_timer = (\<lambda>d w. (None, w)),
      Compile = (\<lambda>pattern. Inr (\<lambda>s. Contains s pattern)),
      sort_Slice' = insertion_sort,
      Now = (\<lambda>w. (0, w))\<rparr>"

definition fresh :: "'w \<Rightarrow> 'w conn" where
  "fresh w = \<lparr>world = w, exchanges = []\<rparr>"

definition source_client :: Client where
  "source_client =
     \<lparr>BaseURL = ''https://source.example'', Username = '''', Password = '''',
      Limiter_enabled = False\<rparr>"

definition target_client :: Client where
  "target_client =
     \<lparr>BaseURL = ''https://target.example'', Username = ''admin'', Password = ''secret'',
      Limiter_enabled = True\<rparr>"

definition manifest_reply :: "(go_error + Response) list" where
  "manifest_reply = [Inr (response 200 [(''Docker-Content-Digest'', ''sha256:cccc'')] ''{}'')]"

definition created_reply :: "(go_error + Response) list" where
  "created_reply = [Inr (response 201 [] '''')]"

definition upload_replies :: "(go_error + Response) list" where
  "upload_replies =
     [Inr (response 202 [(''Location'', ''/v2/mirror/nginx/blobs/uploads/u1'')] ''''),
      Inr (response 202 [(''Location'', ''http://upload.example/u2'')] ''''),
      Inr (response 201 [] '''')]"

text \<open>
  Replies of a registry with token authentication to the push of a manifest: the
  challenge, the token, and the acceptance of the repeated request, with the digest
  of the empty byte sequence as the digest of what was received.
\<close>

definition challenge_replies :: "(go_error + Response) list" where
  "challenge_replies =
     [Inr (response 401
        [(''WWW-Authenticate'',
          ''Bearer realm=\"https://auth.example/token\",service=\"target.example\"'')] ''''),
      Inr (response 200 [] ''t0ken''),
      Inr (response 201
        [(''Docker-Content-Digest'',
          ''sha256:e3b0c44298fc1c149afbf4c8996fb92427ae41e4649b934ca495991b7852b855'')] '''')]"

section \<open>Blob sync tasks of the engine (pkg/sync)\<close>

text \<open>
  A Go function either returns or panics. The slice expression \<open>s[:n]\<close> panics when
  \<open>n\<close> exceeds the length of \<open>s\<close>. Output to the terminal is left out, but the
  arguments of a \<open>Printf\<close> are still evaluated.
\<close>

datatype 'a outcome = Returned 'a | Panic string

definition slice_to :: "string \<Rightarrow> nat \<Rightarrow> string outcome" where
  "slice_to s n =
     (if n \<le> length s then Returned (take n s) else Panic ''slice bounds out of range'')"

record 'w BlobSyncTask =
  Source :: Client
  Target :: Client
  SourceRepo :: string
  TargetRepo :: string
  Digest :: string
  Size :: int
  RetryConfig :: RetryConfig
  OnProgress :: "(string \<Rightarrow> int \<Rightarrow> 'w conn \<Rightarrow> 'w conn) option"

definition report :: "'w BlobSyncTask \<Rightarrow> 'w conn \<Rightarrow> 'w conn" where
  "report t s = (case OnProgress t of None \<Rightarrow> s | Some f \<Rightarrow> f (Digest t) (Size t) s)"

definition ctx_wait :: "'w Env \<Rightarrow> int \<Rightarrow> 'w conn \<Rightarrow> go_error option \<times> 'w conn" where
  "ctx_wait env d s = (case select_timer env d (world s) of (r, w) \<Rightarrow> (r, s\<lparr>world := w\<rparr>))"

definition Execute ::
  "'w Env \<Rightarrow> 'w BlobSyncTask \<Rightarrow> 'w conn \<Rightarrow> go_error option outcome \<times> 'w conn" where
  "Execute env t s =
     (case BlobExists env (Target t) (TargetRepo t) (Digest t) s of
        (Inl err, s1) \<Rightarrow>
          (Returned (Some (wrap_error ''failed to check blob existence: '' err)), s1)
      | (Inr (exists, _), s1) \<Rightarrow>
          if exists then
            (case slice_to (Digest t) 12 of
               Panic p \<Rightarrow> (Panic p, s1)
             | Returned _ \<Rightarrow> (Returned None, report t s1))
          else
            (case slice_to (Digest t) 12 of
               Panic p \<Rightarrow> (Panic p, s1)
             | Returned short \<Rightarrow>
                 (case RetryWithBackoff (RetryConfig t)
                         (CopyBlob env (Source t) (Target t) (SourceRepo t) (TargetRepo t)
                            (Digest t) (Size t))
                         (ctx_wait env) s1 of
                    (Some err, trace, s2) \<Rightarrow>
                      (Returned (Some (wrap_error (''failed to copy blob '' @ short @ '': '') err)),
                       s2)
                  | (None, trace, s2) \<Rightarrow> (Returned None, report t s2))))"

definition Description :: "'w BlobSyncTask \<Rightarrow> string outcome" where
  "Description t =
     (case slice_to (Digest t) 12 of
        Panic p \<Rightarrow> Panic p
      | Returned short \<Rightarrow> Returned (''sync blob '' @ short))"

definition example_task :: "string \<Rightarrow> (go_error + Response) list BlobSyncTask" where
  "example_task digest =
     \<lparr>Source = source_client, Target = target_client,
      SourceRepo = ''library/nginx'', TargetRepo = ''mirror/nginx'',
      Digest = digest, Size = 1024, RetryConfig = DefaultRetryConfig, OnProgress = None\<rparr>"

text \<open>
  Replies for a blob that the target does not have (404 on both existence checks),
  that cannot be mounted (202), and that the source answers with 503.
\<close>

definition unavailable_replies :: "(go_error + Response) list" where
  "unavailable_replies =
     [Inr (response 404 [] ''''), Inr (response 404 [] ''''), Inr (response 202 [] ''''),
      Inr (response 503 [] ''busy'')]"

definition exists_reply :: "(go_error + Response) list" where
  "exists_reply = [Inr (response 200 [(''Content-Length'', ''1024'')] '''')]"

subsection \<open>SyncSingleManifest and the worker pool\<close>

text \<open>
  The worker pool is modelled for one schedule: the tasks run one after another in
  the order of their submission, on worker 0, and the context is not cancelled, so
  that every \<open>Submit\<close> succeeds. A worker records the error of a failed task under the
  task's description. \<open>Wait\<close> reports the first recorded error. Progress reports only
  print and are left out.
\<close>

record SyncRule =
  rule_Name :: string
  rule_SourceRepository :: string
  rule_TargetRepository :: string
  rule_Architectures :: "string list"
  rule_Enabled :: bool

primrec run_workers ::
  "'w Env \<Rightarrow> 'w BlobSyncTask list \<Rightarrow> go_error list \<Rightarrow> 'w conn \<Rightarrow>
   go_error list outcome \<times> 'w conn" where
  "run_workers env [] errors s = (Returned errors, s)"
| "run_workers env (task # rest) errors s =
     (case Execute env task s of
        (Panic p, s1) \<Rightarrow> (Panic p, s1)
      | (Returned None, s1) \<Rightarrow> run_workers env rest errors s1
      | (Returned (Some err), s1) \<Rightarrow>
          (case Description task of
             Panic p \<Rightarrow> (Panic p, s1)
           | Returned description \<Rightarrow>
               run_workers env rest
                 (errors @ [wrap_error (''worker 0: task '' @ description @ '' failed: '') err])
                 s1))"

definition Wait :: "go_error list \<Rightarrow> go_error option" where
  "Wait errors =
     (if length errors > 0 then
        Some (plain_error (''worker pool encountered '' @ itoa (int (length errors)) @
                           '' errors: '' @ msg (hd errors)))
      else None)"

definition SyncSingleManifest ::
  "'w Env \<Rightarrow> RetryConfig \<Rightarrow> Client \<Rightarrow> Client \<Rightarrow> SyncRule \<Rightarrow> string \<Rightarrow> Manifest \<Rightarrow> 'w conn \<Rightarrow>
   go_error option outcome \<times> 'w conn" where
  "SyncSingleManifest env retryConfig source target rule reference manifest s =
     (let blobs = GetAllBlobs manifest;
          submitted = map (\<lambda>blob.
            \<lparr>Source = source, Target = target,
             SourceRepo = rule_SourceRepository rule, TargetRepo = rule_TargetRepository rule,
             Digest = desc_Digest blob, Size = desc_Size blob, RetryConfig = retryConfig,
             OnProgress = None\<rparr>) blobs
      in case run_workers env submitted [] s of
           (Panic p, s1) \<Rightarrow> (Panic p, s1)
         | (Returned errors, s1) \<Rightarrow>
             (case Wait errors of
                Some err \<Rightarrow> (Returned (Some (wrap_error ''blob sync failed: '' err)), s1)
              | None \<Rightarrow>
                  (case PutManifest env target (rule_TargetRepository rule) reference manifest
                          s1 of
                     (Inl err, s2) \<Rightarrow>
                       (Returned (Some (wrap_error ''failed to upload manifest: '' err)), s2)
                   | (Inr _, s2) \<Rightarrow> (Returned None, s2))))"

definition example_rule :: SyncRule where
  "example_rule =
     \<lparr>rule_Name = ''nginx'', rule_SourceRepository = ''library/nginx'',
      rule_TargetRepository = ''mirror/nginx'', rule_Architectures = [],
      rule_Enabled = True\<rparr>"

section \<open>Scheduler (internal/scheduler, internal/db/models)\<close>

subsection \<open>Records of the store\<close>

datatype ExecutionStatus =
  StatusPending | StatusRunning | StatusSuccess | StatusFailed | StatusCanceled

definition status_string :: "ExecutionStatus \<Rightarrow> string" where
  "status_string st =
     (case st of StatusPending \<Rightarrow> ''pending'' | StatusRunning \<Rightarrow> ''running''
      | StatusSuccess \<Rightarrow> ''success'' | StatusFailed \<Rightarrow> ''failed''
      | StatusCanceled \<Rightarrow> ''canceled'')"

record Execution =
  ID :: nat
  TaskID :: nat
  Status :: ExecutionStatus
  StartTime :: int
  EndTime :: "int option"
  TotalBlobs :: int
  SyncedBlobs :: int
  SkippedBlobs :: int
  FailedBlobs :: int
  TotalSize :: int
  SyncedSize :: int
  ErrorMessage :: string

definition IsRunning :: "Execution \<Rightarrow> bool" where
  "IsRunning e = (Status e = StatusRunning)"

definition IsComplete :: "Execution \<Rightarrow> bool" where
  "IsComplete e =
     (Status e = StatusSuccess \<or> Status e = StatusFailed \<or> Status e = StatusCanceled)"

datatype LogLevel = LogLevelInfo | LogLevelWarn | LogLevelError | LogLevelDebug

record ExecutionLog =
  ExecutionID :: nat
  Level :: LogLevel
  Message :: string

record SyncTask =
  task_ID :: nat
  task_Name :: string
  task_SourceRegistry :: nat
  task_SourceProject :: string
  task_SourceRepo :: string
  task_TargetRegistry :: nat
  task_TargetProject :: string
  task_TargetRepo :: string
  task_TagInclude :: "string list"
  task_TagExclude :: "string list"
  task_TagLatest :: int
  task_Architectures :: "string list"
  task_Enabled :: bool
  task_CronExpression :: string
  task_SendNotification :: bool
  task_NotificationCondition :: string
  task_NotificationChannelIDs :: string

definition GetSourceRepoPath :: "SyncTask \<Rightarrow> string" where
  "GetSourceRepoPath t =
     (if task_SourceRepo t = '''' then task_SourceProject t
      else task_SourceProject t @ ''/'' @ task_SourceRepo t)"

definition GetTargetRepoPath :: "SyncTask \<Rightarrow> string \<Rightarrow> string" where
  "GetTargetRepoPath t sourceRepo =
     (let targetRepo = sourceRepo;
          targetRepo = (if task_TargetRepo t \<noteq> '''' then task_TargetRepo t else targetRepo)
      in task_TargetProject t @ ''/'' @ targetRepo)"

subsection \<open>The two phases of runTask\<close>

text \<open>
  The state of a run: the connection, the execution log written to the store, the
  \<open>*models.Execution\<close> that the run mutates, the row last saved by \<open>UpdateExecution\<close>,
  and the progress broadcasts (total and synced blobs). Log messages are given in
  English; timestamps of log lines are left out.
\<close>

record 'w run =
  conn :: "'w conn"
  logs :: "ExecutionLog list"
  execution :: Execution
  saved :: "Execution option"
  progress :: "(int \<times> int) list"

definition CreateExecutionLog :: "LogLevel \<Rightarrow> string \<Rightarrow> 'w run \<Rightarrow> 'w run" where
  "CreateExecutionLog level message st =
     st\<lparr>logs := logs st @
          [\<lparr>ExecutionID = ID (execution st), Level = level, Message = message\<rparr>]\<rparr>"

definition UpdateExecution :: "'w run \<Rightarrow> 'w run" where
  "UpdateExecution st = st\<lparr>saved := Some (execution st)\<rparr>"

definition BroadcastProgress :: "'w run \<Rightarrow> 'w run" where
  "BroadcastProgress st =
     st\<lparr>progress := progress st @
          [(TotalBlobs (execution st), SyncedBlobs (execution st))]\<rparr>"

record repoTagInfo =
  rt_repoName :: string
  rt_tag :: string
  rt_manifest :: Manifest
  rt_sourceRepo :: string
  rt_targetRepo :: string

text \<open>First phase (lines 355 to 437): list and filter the tags, fetch the manifests, count.\<close>

primrec stamp_tags :: "'w Env \<Rightarrow> string list \<Rightarrow> 'w \<Rightarrow> TagInfo list \<times> 'w" where
  "stamp_tags env [] w = ([], w)"
| "stamp_tags env (tag # rest) w =
     (case Now env w of
        (t, w1) \<Rightarrow> (case stamp_tags env rest w1 of
                      (infos, w2) \<Rightarrow> (\<lparr>Name = tag, Updated = t\<rparr> # infos, w2)))"

primrec count_manifests ::
  "'w Env \<Rightarrow> Client \<Rightarrow> SyncTask \<Rightarrow> string \<Rightarrow> string \<Rightarrow> string list \<Rightarrow>
   repoTagInfo list \<times> int \<Rightarrow> 'w run \<Rightarrow> (repoTagInfo list \<times> int) \<times> 'w run" where
  "count_manifests env sourceClient task repoName sourceRepoPath [] acc st = (acc, st)"
| "count_manifests env sourceClient task repoName sourceRepoPath (tag # rest) acc st =
     (case GetManifest env sourceClient sourceRepoPath tag (conn st) of
        (Inl err, s1) \<Rightarrow>
          count_manifests env sourceClient task repoName sourceRepoPath rest acc
            (CreateExecutionLog LogLevelError
               (''get manifest failed ('' @ sourceRepoPath @ '':'' @ tag @ ''): '' @ msg err)
               (st\<lparr>conn := s1\<rparr>))
      | (Inr manifest, s1) \<Rightarrow>
          (let blobs = GetAllBlobs manifest;
               totalBlobsCount = snd acc + int (length blobs);
               allRepoTags = fst acc @
                 [\<lparr>rt_repoName = repoName, rt_tag = tag, rt_manifest = manifest,
                   rt_sourceRepo = sourceRepoPath,
                   rt_targetRepo = GetTargetRepoPath task repoName\<rparr>]
           in count_manifests env sourceClient task repoName sourceRepoPath rest
                (allRepoTags, totalBlobsCount) (st\<lparr>conn := s1\<rparr>)))"

primrec analyse_repositories ::
  "'w Env \<Rightarrow> Client \<Rightarrow> SyncTask \<Rightarrow> string list \<Rightarrow> repoTagInfo list \<times> int \<Rightarrow> 'w run \<Rightarrow>
   (repoTagInfo list \<times> int) \<times> 'w run" where
  "analyse_repositories env sourceClient task [] acc st = (acc, st)"
| "analyse_repositories env sourceClient task (repoName # rest) acc st =
     (let sourceRepoPath = task_SourceProject task @ ''/'' @ repoName
      in case ListTags env sourceClient sourceRepoPath (conn st) of
           (Inl err, s1) \<Rightarrow>
             analyse_repositories env sourceClient task rest acc
               (CreateExecutionLog LogLevelError
                  (''list tags of '' @ sourceRepoPath @ '' failed: '' @ msg err)
                  (st\<lparr>conn := s1\<rparr>))
         | (Inr tags, s1) \<Rightarrow>
             (case NewFilter (Compile env) (task_TagInclude task) (task_TagExclude task)
                     (task_TagLatest task) of
                Inl err \<Rightarrow>
                  analyse_repositories env sourceClient task rest acc
                    (CreateExecutionLog LogLevelError
                       (''create tag filter failed: '' @ msg err) (st\<lparr>conn := s1\<rparr>))
              | Inr tagFilter \<Rightarrow>
                  (case stamp_tags env tags (world s1) of
                     (tagInfos, w) \<Rightarrow>
                       (let filteredTags = FilterTags (sort_Slice' env) tagFilter tagInfos
                        in case count_manifests env sourceClient task repoName sourceRepoPath
                                  filteredTags acc (st\<lparr>conn := s1\<lparr>world := w\<rparr>\<rparr>) of
                             (acc1, st1) \<Rightarrow>
                               analyse_repositories env sourceClient task rest acc1 st1))))"

definition analyse ::
  "'w Env \<Rightarrow> Client \<Rightarrow> SyncTask \<Rightarrow> string list \<Rightarrow> 'w run \<Rightarrow> repoTagInfo list \<times> 'w run" where
  "analyse env sourceClient task repositories st =
     (case analyse_repositories env sourceClient task repositories ([], 0) st of
        ((allRepoTags, totalBlobsCount), st1) \<Rightarrow>
          (let st2 = UpdateExecution
                       (st1\<lparr>execution := (execution st1)\<lparr>TotalBlobs := totalBlobsCount\<rparr>\<rparr>);
               st3 = CreateExecutionLog LogLevelInfo
                       (''analysis done: '' @ itoa (int (length repositories)) @
                        '' repositories, '' @ itoa (int (length allRepoTags)) @ '' tags, '' @
                        itoa totalBlobsCount @ '' blobs to sync'') st2
           in (allRepoTags, st3)))"





text \<open>
  Second phase (lines 439 to 532): for every tag, every blob, then the manifest. The
  message of a failed copy slices the digest, which panics on a short digest.
\<close>

primrec sync_blobs ::
  "'w Env \<Rightarrow> Client \<Rightarrow> Client \<Rightarrow> repoTagInfo \<Rightarrow> Descriptor list \<Rightarrow> 'w run \<Rightarrow>
   unit outcome \<times> 'w run" where
  "sync_blobs env sourceClient targetClient repoTag [] st = (Returned (), st)"
| "sync_blobs env sourceClient targetClient repoTag (blob # rest) st =
     (case BlobExists env targetClient (rt_targetRepo repoTag) (desc_Digest blob) (conn st) of
        (Inl err, s1) \<Rightarrow>
          (let st1 = CreateExecutionLog LogLevelError (''check blob failed: '' @ msg err)
                       (st\<lparr>conn := s1\<rparr>);
               st2 = st1\<lparr>execution :=
                       (execution st1)\<lparr>FailedBlobs := FailedBlobs (execution st1) + 1\<rparr>\<rparr>
           in sync_blobs env sourceClient targetClient repoTag rest st2)
      | (Inr (exists, _), s1) \<Rightarrow>
          if exists then
            (let st1 = st\<lparr>conn := s1\<rparr>;
                 st2 = st1\<lparr>execution := (execution st1)
                         \<lparr>SkippedBlobs := SkippedBlobs (execution st1) + 1,
                          SyncedBlobs := SyncedBlobs (execution st1) + 1\<rparr>\<rparr>
             in sync_blobs env sourceClient targetClient repoTag rest
                  (BroadcastProgress (UpdateExecution st2)))
          else
            (case CopyBlob env sourceClient targetClient (rt_sourceRepo repoTag)
                    (rt_targetRepo repoTag) (desc_Digest blob) (desc_Size blob) s1 of
               (Some err, s2) \<Rightarrow>
                 (case slice_to (desc_Digest blob) 12 of
                    Panic p \<Rightarrow> (Panic p, st\<lparr>conn := s2\<rparr>)
                  | Returned short \<Rightarrow>
                      (let st1 = CreateExecutionLog LogLevelError
                                   (''copy blob failed ('' @ short @ ''): '' @ msg err)
                                   (st\<lparr>conn := s2\<rparr>);
                           st2 = st1\<lparr>execution := (execution st1)
                                   \<lparr>FailedBlobs := FailedBlobs (execution st1) + 1\<rparr>\<rparr>
                       in sync_blobs env sourceClient targetClient repoTag rest
                            (BroadcastProgress (UpdateExecution st2))))
             | (None, s2) \<Rightarrow>
                 (let st1 = st\<lparr>conn := s2\<rparr>;
                      st2 = st1\<lparr>execution := (execution st1)
                              \<lparr>SyncedBlobs := SyncedBlobs (execution st1) + 1,
                               SyncedSize := SyncedSize (execution st1) + desc_Size blob\<rparr>\<rparr>
                  in sync_blobs env sourceClient targetClient repoTag rest
                       (BroadcastProgress (UpdateExecution st2)))))"

primrec sync_tags ::
  "'w Env \<Rightarrow> Client \<Rightarrow> Client \<Rightarrow> nat \<Rightarrow> repoTagInfo list \<Rightarrow> nat \<Rightarrow> string \<Rightarrow> 'w run \<Rightarrow>
   unit outcome \<times> 'w run" where
  "sync_tags env sourceClient targetClient n_tags [] tagIndex currentRepo st = (Returned (), st)"
| "sync_tags env sourceClient targetClient n_tags (repoTag # rest) tagIndex currentRepo st =
     (let st1 = (if rt_repoName repoTag \<noteq> currentRepo then
                   CreateExecutionLog LogLevelInfo
                     (''start syncing repository: '' @ rt_sourceRepo repoTag @ '' -> '' @
                      rt_targetRepo repoTag) st
                 else st);
          currentRepo = (if rt_repoName repoTag \<noteq> currentRepo then rt_repoName repoTag
                         else currentRepo);
          st2 = CreateExecutionLog LogLevelInfo
                  (''['' @ itoa (int tagIndex + 1) @ ''/'' @ itoa (int n_tags) @ ''] sync tag: '' @
                   rt_repoName repoTag @ '':'' @ rt_tag repoTag) st1;
          blobs = GetAllBlobs (rt_manifest repoTag);
          st3 = CreateExecutionLog LogLevelInfo
                  (''tag '' @ rt_tag repoTag @ '' has '' @ itoa (int (length blobs)) @ '' blobs'')
                  st2
      in case sync_blobs env sourceClient targetClient repoTag blobs st3 of
           (Panic p, st4) \<Rightarrow> (Panic p, st4)
         | (Returned _, st4) \<Rightarrow>
             (case PutManifest env targetClient (rt_targetRepo repoTag) (rt_tag repoTag)
                     (rt_manifest repoTag) (conn st4) of
                (Inl err, s5) \<Rightarrow>
                  sync_tags env sourceClient targetClient n_tags rest (tagIndex + 1) currentRepo
                    (CreateExecutionLog LogLevelError
                       (''upload manifest failed ('' @ rt_tag repoTag @ ''): '' @ msg err)
                       (st4\<lparr>conn := s5\<rparr>))
              | (Inr _, s5) \<Rightarrow>
                  sync_tags env sourceClient targetClient n_tags rest (tagIndex + 1) currentRepo
                    (CreateExecutionLog LogLevelInfo
                       (''tag '' @ rt_tag repoTag @ '' synced'') (st4\<lparr>conn := s5\<rparr>))))"

definition synchronise ::
  "'w Env \<Rightarrow> Client \<Rightarrow> Client \<Rightarrow> repoTagInfo list \<Rightarrow> 'w run \<Rightarrow> go_error option outcome \<times> 'w run" where
  "synchronise env sourceClient targetClient allRepoTags st =
     (case sync_tags env sourceClient targetClient (length allRepoTags) allRepoTags 0 '''' st of
        (Panic p, st1) \<Rightarrow> (Panic p, st1)
      | (Returned _, st1) \<Rightarrow>
          (Returned None,
           CreateExecutionLog LogLevelInfo
             (''all done: synced '' @ itoa (SyncedBlobs (execution st1)) @ '' blobs, skipped '' @
              itoa (SkippedBlobs (execution st1)) @ '', failed '' @
              itoa (FailedBlobs (execution st1))) st1))"

definition analyse_and_synchronise ::
  "'w Env \<Rightarrow> Client \<Rightarrow> Client \<Rightarrow> SyncTask \<Rightarrow> string list \<Rightarrow> 'w run \<Rightarrow>
   go_error option outcome \<times> 'w run" where
  "analyse_and_synchronise env sourceClient targetClient task repositories st =
     (case analyse env sourceClient task repositories st of
        (allRepoTags, st1) \<Rightarrow> synchronise env sourceClient targetClient allRepoTags st1)"

text \<open>A task that mirrors \<open>library/nginx\<close> to \<open>mirror/nginx\<close>, and the start of a run.\<close>

definition example_sync_task :: SyncTask where
  "example_sync_task =
     \<lparr>task_ID = 1, task_Name = ''nginx'', task_SourceRegistry = 1,
      task_SourceProject = ''library'', task_SourceRepo = ''nginx'', task_TargetRegistry = 2,
      task_TargetProject = ''mirror'', task_TargetRepo = '''', task_TagInclude = [],
      task_TagExclude = [], task_TagLatest = 0, task_Architectures = [], task_Enabled = True,
      task_CronExpression = '''', task_SendNotification = True,
      task_NotificationCondition = ''failed'', task_NotificationChannelIDs = ''[7]''\<rparr>"

definition new_execution :: "nat \<Rightarrow> nat \<Rightarrow> int \<Rightarrow> Execution" where
  "new_execution eid tid now =
     \<lparr>ID = eid, TaskID = tid, Status = StatusRunning, StartTime = now, EndTime = None,
      TotalBlobs = 0, SyncedBlobs = 0, SkippedBlobs = 0, FailedBlobs = 0, TotalSize = 0,
      SyncedSize = 0, ErrorMessage = ''''\<rparr>"

definition start_run :: "'w \<Rightarrow> 'w run" where
  "start_run w =
     \<lparr>conn = fresh w, logs = [], execution = new_execution 1 1 0,
      saved = Some (new_execution 1 1 0), progress = []\<rparr>"


definition failed_blob_replies :: "(go_error + Response) list" where
  "failed_blob_replies =
     [Inr (response 200 [] ''1.25.0''),
      Inr (response 200 [(''Docker-Content-Digest'', ''sha256:cccc'')] ''{}''),
      Inr (response 500 [] ''''),
      Inr (response 200 [(''Content-Length'', ''12345678'')] ''''),
      Inr (response 201 [(''Docker-Content-Digest'', ''sha256:cccc'')] '''')]"

subsection \<open>ExecuteTask, CancelTask and the end of the background goroutine\<close>

text \<open>
  The scheduler with its store and its collaborators, as a state machine whose steps
  are the calls of \<open>ExecuteTask\<close> and \<open>CancelTask\<close> and the exits of the goroutines that
  \<open>ExecuteTask\<close> starts. A cancel function is the number of the context it cancels. The
  store is a set of in-memory tables that never fail: \<open>GetTask\<close> fails only for an
  unknown id and \<open>CreateExecution\<close> assigns the next id. \<open>runTask\<close> enters through its
  result alone, which is an argument of the exit step. The hub and the notifier are
  the lists of what was handed to them.
\<close>

record NotificationChannel =
  chan_ID :: nat
  chan_Name :: string
  chan_Type :: string
  chan_WebhookURL :: string
  chan_Enabled :: bool

record goroutine =
  g_taskID :: nat
  g_task :: SyncTask
  g_execution :: Execution
  g_ctx :: nat

record Scheduler =
  running :: "nat \<rightharpoonup> nat"
  cancelled :: "nat list"
  tasks :: "nat \<rightharpoonup> SyncTask"
  executions :: "Execution list"
  channels :: "nat \<rightharpoonup> NotificationChannel"
  goroutines :: "goroutine list"
  hub_logs :: "(nat \<times> string \<times> string) list"
  hub_progress :: "(nat \<times> ExecutionStatus \<times> int \<times> int) list"
  notifications :: "(string \<times> string \<times> string) list"

definition ExecuteTask :: "Scheduler \<Rightarrow> nat \<Rightarrow> int \<Rightarrow> go_error option \<times> Scheduler" where
  "ExecuteTask s taskID now =
     (if running s taskID \<noteq> None then
        (Some (plain_error (''task '' @ itoa (int taskID) @ '' is already running'')), s)
      else
        (case tasks s taskID of
           None \<Rightarrow>
             (Some (wrap_error ''failed to load task: '' (plain_error ''record not found'')), s)
         | Some task \<Rightarrow>
             (let created = new_execution (Suc (length (executions s))) (task_ID task) now;
                  s1 = s\<lparr>executions := executions s @ [created]\<rparr>;
                  ctx = ID created;
                  s2 = s1\<lparr>running := (running s1)(taskID \<mapsto> ctx)\<rparr>;
                  s3 = s2\<lparr>goroutines := goroutines s2 @
                          [\<lparr>g_taskID = taskID, g_task = task, g_execution = created,
                            g_ctx = ctx\<rparr>]\<rparr>
              in (None, s3))))"

definition CancelTask :: "Scheduler \<Rightarrow> nat \<Rightarrow> go_error option \<times> Scheduler" where
  "CancelTask s taskID =
     (case running s taskID of
        None \<Rightarrow> (Some (plain_error (''task '' @ itoa (int taskID) @ '' is not running'')), s)
      | Some cancel \<Rightarrow>
          (None, s\<lparr>cancelled := cancelled s @ [cancel],
                   running := (running s)(taskID := None)\<rparr>))"

definition save_execution :: "Execution \<Rightarrow> Scheduler \<Rightarrow> Scheduler" where
  "save_execution e s =
     s\<lparr>executions := map (\<lambda>row. if ID row = ID e then e else row) (executions s)\<rparr>"

primrec notify_channels :: "SyncTask \<Rightarrow> string \<Rightarrow> nat list \<Rightarrow> Scheduler \<Rightarrow> Scheduler" where
  "notify_channels task status [] s = s"
| "notify_channels task status (channelID # rest) s =
     (case channels s channelID of
        None \<Rightarrow> notify_channels task status rest s
      | Some channel \<Rightarrow>
          if \<not> chan_Enabled channel then notify_channels task status rest s
          else notify_channels task status rest
                 (s\<lparr>notifications := notifications s @
                      [(chan_Name channel, task_Name task, status)]\<rparr>))"

definition sendNotification ::
  "(string \<Rightarrow> go_error + nat list) \<Rightarrow> SyncTask \<Rightarrow> string \<Rightarrow> Scheduler \<Rightarrow> Scheduler" where
  "sendNotification Unmarshal_ids task status s =
     (if \<not> task_SendNotification task then s
      else if task_NotificationCondition task = ''failed'' \<and>
              status \<noteq> status_string StatusFailed then s
      else
        (case (if task_NotificationChannelIDs task \<noteq> ''''
               then Unmarshal_ids (task_NotificationChannelIDs task) else Inr []) of
           Inl err \<Rightarrow> s
         | Inr channelIDs \<Rightarrow>
             if length channelIDs = 0 then s
             else notify_channels task status channelIDs s))"

definition goroutine_exit ::
  "(string \<Rightarrow> go_error + nat list) \<Rightarrow> Scheduler \<Rightarrow> nat \<Rightarrow> go_error option \<Rightarrow> int \<Rightarrow> Scheduler" where
  "goroutine_exit Unmarshal_ids s eid result now =
     (case find (\<lambda>g. ID (g_execution g) = eid) (goroutines s) of
        None \<Rightarrow> s
      | Some g \<Rightarrow>
          (let finished =
                 (case result of
                    Some err \<Rightarrow>
                      (g_execution g)\<lparr>Status := StatusFailed, EndTime := Some now,
                                      ErrorMessage := msg err\<rparr>
                  | None \<Rightarrow> (g_execution g)\<lparr>Status := StatusSuccess, EndTime := Some now\<rparr>);
               s1 = save_execution finished s;
               s2 = s1\<lparr>hub_logs := hub_logs s1 @
                       [(case result of
                           Some err \<Rightarrow> (ID finished, ''error'', ''Task failed: '' @ msg err)
                         | None \<Rightarrow> (ID finished, ''info'', ''Task completed successfully''))]\<rparr>;
               s3 = sendNotification Unmarshal_ids (g_task g) (status_string (Status finished)) s2;
               s4 = s3\<lparr>hub_progress := hub_progress s3 @
                       [(ID finished, Status finished, TotalBlobs finished,
                         SyncedBlobs finished)]\<rparr>
           in s4\<lparr>running := (running s4)(g_taskID g := None),
                  goroutines := filter (\<lambda>h. ID (g_execution h) \<noteq> eid) (goroutines s4)\<rparr>))"

datatype event =
  Call_ExecuteTask nat int | Call_CancelTask nat | Goroutine_exits nat "go_error option" int

fun step ::
  "(string \<Rightarrow> go_error + nat list) \<Rightarrow> event \<Rightarrow> Scheduler \<Rightarrow> go_error option \<times> Scheduler" where
  "step Unmarshal_ids (Call_ExecuteTask taskID now) s = ExecuteTask s taskID now"
| "step Unmarshal_ids (Call_CancelTask taskID) s = CancelTask s taskID"
| "step Unmarshal_ids (Goroutine_exits eid result now) s =
     (None, goroutine_exit Unmarshal_ids s eid result now)"

primrec run_events ::
  "(string \<Rightarrow> go_error + nat list) \<Rightarrow> event list \<Rightarrow> Scheduler \<Rightarrow> go_error option list \<times> Scheduler" where
  "run_events Unmarshal_ids [] s = ([], s)"
| "run_events Unmarshal_ids (e # es) s =
     (case step Unmarshal_ids e s of
        (r, s1) \<Rightarrow> (case run_events Unmarshal_ids es s1 of (rs, s2) \<Rightarrow> (r # rs, s2)))"

definition running_executions :: "Scheduler \<Rightarrow> nat \<Rightarrow> Execution list" where
  "running_executions s taskID =
     filter (\<lambda>e. TaskID e = taskID \<and> Status e = StatusRunning) (executions s)"

text \<open>
  A scheduler that knows the example task and one enabled channel; the decoder of
  channel ids knows the string \<open>[7]\<close>; the error \<open>runTask\<close> returns when its context is
  cancelled before the source registry answers the ping.
\<close>

definition example_scheduler :: Scheduler where
  "example_scheduler =
     \<lparr>running = Map.empty, cancelled = [], tasks = [1 \<mapsto> example_sync_task],
      executions = [],
      channels = [7 \<mapsto> \<lparr>chan_ID = 7, chan_Name = ''ops'', chan_Type = ''wechat'',
                           chan_WebhookURL = ''https://hooks.example/ops'',
                           chan_Enabled = True\<rparr>],
      goroutines = [], hub_logs = [], hub_progress = [], notifications = []\<rparr>"

definition example_ids :: "string \<Rightarrow> go_error + nat list" where
  "example_ids s = (if s = ''[7]'' then Inr [7] else Inl (plain_error ''invalid character''))"

definition cancelled_run_error :: go_error where
  "cancelled_run_error =
     plain_error
       ''source registry connection failed: failed to ping registry: context canceled''"

text \<open>
  The invariant behind the conflict check, for runs in which \<open>CancelTask\<close> is not
  called: the store gives every task under its own id, execution ids count up from 1,
  every execution with status running belongs to a goroutine that has not ended, every
  such goroutine has its entry in the running map, and no two of them run the same
  task.
\<close>

primrec is_cancel :: "event \<Rightarrow> bool" where
  "is_cancel (Call_ExecuteTask taskID now) = False"
| "is_cancel (Call_CancelTask taskID) = True"
| "is_cancel (Goroutine_exits eid result now) = False"

definition in_flight_invariant :: "Scheduler \<Rightarrow> bool" where
  "in_flight_invariant s =
     ((\<forall>i t. tasks s i = Some t \<longrightarrow> task_ID t = i) \<and>
      map ID (executions s) = [1..<Suc (length (executions s))] \<and>
      (\<forall>e \<in> set (executions s). Status e = StatusRunning \<longrightarrow>
         (\<exists>g \<in> set (goroutines s). ID (g_execution g) = ID e \<and> g_taskID g = TaskID e)) \<and>
      (\<forall>g \<in> set (goroutines s). running s (g_taskID g) \<noteq> None) \<and>
      distinct (map g_taskID (goroutines s)))"

section \<open>Properties of the retry loop\<close>

declare retry_loop.simps [simp del]


















section \<open>Properties of the tag filter\<close>

lemma any_match_iff: "any_match res tag \<longleftrightarrow> (\<exists>re. re \<in> set res \<and> re tag)"
  by (induction res) auto

lemma Match_survives: "Match f tag = survives f tag"
  by (auto simp: Match_def survives_def any_match_iff)

text \<open>
  Claim C3. Whenever \<open>sort.Slice\<close> keeps its contract on the matched tags (its result
  is a permutation of them in which no later element is \<open>less\<close> than an earlier
  one), \<open>FilterTags\<close> returns the names of the tags that survive the filter, ordered by
  \<open>Updated\<close> descending and cut to the first \<open>Latest\<close> when \<open>Latest > 0\<close>; a tag that an
  exclude expression matches is never returned, whatever the include expressions say.
\<close>

theorem FilterTags_equation:
  assumes "mset (sort_Slice (\<lambda>a b. After (Updated a) (Updated b))
                  (filter (\<lambda>tag. Match f (Name tag)) tags)) =
           mset (filter (\<lambda>tag. Match f (Name tag)) tags)"
    and "sorted_wrt (\<lambda>a b. \<not> After (Updated b) (Updated a))
           (sort_Slice (\<lambda>a b. After (Updated a) (Updated b))
              (filter (\<lambda>tag. Match f (Name tag)) tags))"
  shows "(\<exists>ms. mset ms = mset (filter (\<lambda>tag. survives f (Name tag)) tags) \<and>
               sorted_wrt (\<lambda>a b. Updated a \<ge> Updated b) ms \<and>
               FilterTags sort_Slice f tags =
                 map Name (if Latest f > 0 then take (nat (Latest f)) ms else ms))
       \<and> (\<forall>tag re. re \<in> set (Exclude f) \<and> re tag \<longrightarrow>
             tag \<notin> set (FilterTags sort_Slice f tags))"
proof -
  define ms where "ms = sort_Slice (\<lambda>a b. After (Updated a) (Updated b))
                          (filter (\<lambda>tag. Match f (Name tag)) tags)"
  have perm: "mset ms = mset (filter (\<lambda>tag. survives f (Name tag)) tags)"
    using assms(1) unfolding ms_def Match_survives .
  have srt: "sorted_wrt (\<lambda>a b. Updated a \<ge> Updated b) ms"
    using assms(2) unfolding ms_def After_def by (simp add: not_less)
  have trunc: "(if Latest f > 0 \<and> int (length ms) > Latest f then take (nat (Latest f)) ms else ms) =
               (if Latest f > 0 then take (nat (Latest f)) ms else ms)"
    by auto
  have out: "FilterTags sort_Slice f tags =
               map Name (if Latest f > 0 then take (nat (Latest f)) ms else ms)"
    unfolding FilterTags_def Let_def ms_def[symmetric] trunc ..
  have "tag \<notin> set (FilterTags sort_Slice f tags)" if "re \<in> set (Exclude f)" "re tag" for tag re
  proof
    assume "tag \<in> set (FilterTags sort_Slice f tags)"
    then obtain t where t: "t \<in> set (if Latest f > 0 then take (nat (Latest f)) ms else ms)"
        "Name t = tag"
      unfolding out by auto
    then have "t \<in> set ms" by (auto split: if_splits dest: in_set_takeD)
    then have "t \<in># mset (filter (\<lambda>tag. survives f (Name tag)) tags)"
      using perm by (metis set_mset_mset)
    then have "survives f tag" using t(2) by auto
    then show False using that by (auto simp: survives_def)
  qed
  then show ?thesis using perm srt out by blast
qed

theorem FilterTags_equation_witness:
  "FilterTags insertion_sort example_filter example_tags = [''v3'']
   \<and> (\<exists>ms. mset ms = mset (filter (\<lambda>tag. survives example_filter (Name tag)) example_tags) \<and>
            sorted_wrt (\<lambda>a b. Updated a \<ge> Updated b) ms \<and>
            FilterTags insertion_sort example_filter example_tags =
              map Name (if Latest example_filter > 0
                        then take (nat (Latest example_filter)) ms else ms))"
proof -
  have sorted_list: "insertion_sort (\<lambda>a b. After (Updated a) (Updated b))
            (filter (\<lambda>tag. Match example_filter (Name tag)) example_tags) =
        [\<lparr>Name = ''v3'', Updated = 20\<rparr>, \<lparr>Name = ''v1'', Updated = 10\<rparr>]"
    by (simp add: example_filter_def example_tags_def Match_def insertion_sort_def
        insert_left_def After_def)
  have matched: "filter (\<lambda>tag. Match example_filter (Name tag)) example_tags =
        [\<lparr>Name = ''v1'', Updated = 10\<rparr>, \<lparr>Name = ''v3'', Updated = 20\<rparr>]"
    by (simp add: example_filter_def example_tags_def Match_def)
  have h1: "mset (insertion_sort (\<lambda>a b. After (Updated a) (Updated b))
                  (filter (\<lambda>tag. Match example_filter (Name tag)) example_tags)) =
            mset (filter (\<lambda>tag. Match example_filter (Name tag)) example_tags)"
    by (simp only: sorted_list) (simp add: matched)
  have h2: "sorted_wrt (\<lambda>a b. \<not> After (Updated b) (Updated a))
           (insertion_sort (\<lambda>a b. After (Updated a) (Updated b))
              (filter (\<lambda>tag. Match example_filter (Name tag)) example_tags))"
    unfolding sorted_list by (simp add: After_def)
  have out: "FilterTags insertion_sort example_filter example_tags = [''v3'']"
    unfolding FilterTags_def Let_def sorted_list by (simp add: example_filter_def)
  from FilterTags_equation[of insertion_sort example_filter example_tags, OF h1 h2] out
  show ?thesis by blast
qed
section \<open>Properties of the registry client\<close>

lemma send_exchanges:
  "send env req s = (x, s1) \<Longrightarrow> exchanges s1 = exchanges s @ [(req, x)]"
  by (auto simp: send_def split: prod.splits)

lemma reader_eq: "ReadAll r = (data, err) \<Longrightarrow> r = Reader data err"
  by (cases r) auto

lemma Limiter_Wait_exchanges:
  "Limiter_Wait env c s = (r, s0) \<Longrightarrow> exchanges s0 = exchanges s"
  by (auto simp: Limiter_Wait_def split: if_splits prod.splits)

lemma getBearerToken_exchanges:
  assumes "getBearerToken env c authHeader requestPath s = (r, s1)"
  shows "exchanges s1 = exchanges s \<or>
         (\<exists>q x. exchanges s1 = exchanges s @ [(q, x)] \<and> req_Method q = ''GET'' \<and>
                req_Body q = None)"
proof -
  let ?params = "parseAuthHeader authHeader"
  let ?query = "(if ?params ''service'' \<noteq> '''' then [(''service'', ?params ''service'')] else []) @
                (if ?params ''scope'' \<noteq> '''' then [(''scope'', ?params ''scope'')] else [])"
  show ?thesis
  proof (cases "set_query env (?params ''realm'') ?query")
    case (Inl err)
    then show ?thesis using assms by (auto simp: getBearerToken_def Let_def split: if_splits)
  next
    case (Inr tokenURL)
    let ?req = "\<lparr>req_Method = ''GET'', req_URL = tokenURL, req_Header = [],
                 req_Body = None, req_ContentLength = None, req_BasicAuth = basic_auth c\<rparr>"
    obtain x s' where snd: "send env ?req s = (x, s')" by (cases "send env ?req s")
    have ex: "exchanges s' = exchanges s @ [(?req, x)]" using send_exchanges[OF snd] .
    show ?thesis
      using assms Inr snd ex
      by (auto simp: getBearerToken_def Let_def
          split: if_splits option.splits sum.splits prod.splits)
  qed
qed

lemma doRequest_shape:
  assumes run: "doRequest env c method path body headers s = (r, s1)"
  shows "(exchanges s1 = exchanges s \<and> (\<exists>err. r = Inl err)) \<or>
         (\<exists>x rest w.
            exchanges s1 = exchanges s @
              (\<lparr>req_Method = method, req_URL = BaseURL c @ path, req_Header = headers,
                req_Body = body, req_ContentLength = None, req_BasicAuth = basic_auth c\<rparr>, x) #
              rest \<and>
            (status_of x \<noteq> Some 401 \<longrightarrow> rest = [] \<and> r = x) \<and>
            (\<forall>q \<in> set rest.
               (req_Method (fst q) = ''GET'' \<and> req_Body (fst q) = None) \<or>
               (req_Method (fst q) = method \<and> req_URL (fst q) = BaseURL c @ path \<and>
                req_Body (fst q) =
                  unread env
                    \<lparr>req_Method = method, req_URL = BaseURL c @ path, req_Header = headers,
                      req_Body = body, req_ContentLength = None,
                      req_BasicAuth = basic_auth c\<rparr> w)) \<and>
            (\<forall>resp. r = Inr resp \<longrightarrow>
               (\<exists>q. last
                  ((\<lparr>req_Method = method, req_URL = BaseURL c @ path, req_Header = headers,
                     req_Body = body, req_ContentLength = None,
                     req_BasicAuth = basic_auth c\<rparr>, x) # rest) = (q, Inr resp) \<and>
                  req_Method q = method \<and> req_URL q = BaseURL c @ path)))"
proof -
  let ?req = "\<lparr>req_Method = method, req_URL = BaseURL c @ path, req_Header = headers,
               req_Body = body, req_ContentLength = None, req_BasicAuth = basic_auth c\<rparr>"
  obtain r0 s0 where lim: "Limiter_Wait env c s = (r0, s0)"
    by (cases "Limiter_Wait env c s")
  have e0: "exchanges s0 = exchanges s" using Limiter_Wait_exchanges[OF lim] .
  show ?thesis
  proof (cases "r0 \<noteq> None \<or> NewRequest env method (BaseURL c @ path) \<noteq> None")
    case True
    then have "exchanges s1 = exchanges s \<and> (\<exists>err. r = Inl err)"
      using run lim e0 by (auto simp: doRequest_def Let_def split: option.splits)
    then show ?thesis by blast
  next
    case False
    then have ok: "r0 = None" "NewRequest env method (BaseURL c @ path) = None" by auto
    obtain x sa where snd: "send env ?req s0 = (x, sa)" by (cases "send env ?req s0")
    have ea: "exchanges sa = exchanges s @ [(?req, x)]" using send_exchanges[OF snd] e0 by simp
    have unf: "doRequest env c method path body headers s =
      (case x of Inl err \<Rightarrow> (Inl err, sa)
       | Inr resp \<Rightarrow>
          if StatusCode resp = 401 then
            (if Header resp ''WWW-Authenticate'' = '''' then
               send env
                 \<lparr>req_Method = method, req_URL = BaseURL c @ path,
                  req_Header = headers, req_Body = unread env ?req (world sa),
                  req_ContentLength = None,
                  req_BasicAuth = Some (Username c, Password c)\<rparr> sa
             else
               (case getBearerToken env c (Header resp ''WWW-Authenticate'') path sa of
                  (Inl err, s2) \<Rightarrow> (Inl (wrap_error ''failed to get bearer token: '' err), s2)
                | (Inr token, s2) \<Rightarrow>
                    send env
                      \<lparr>req_Method = method, req_URL = BaseURL c @ path,
                       req_Header = headers @ [(''Authorization'', ''Bearer '' @ token)],
                       req_Body = unread env ?req (world sa), req_ContentLength = None,
                       req_BasicAuth = None\<rparr> s2))
          else (Inr resp, sa))"
      using lim ok snd by (simp add: doRequest_def Let_def split: sum.splits)
    have "\<exists>rest. exchanges s1 = exchanges s @ (?req, x) # rest \<and>
            (status_of x \<noteq> Some 401 \<longrightarrow> rest = [] \<and> r = x) \<and>
            (\<forall>q \<in> set rest.
               (req_Method (fst q) = ''GET'' \<and> req_Body (fst q) = None) \<or>
               (req_Method (fst q) = method \<and> req_URL (fst q) = BaseURL c @ path \<and>
                req_Body (fst q) = unread env ?req (world sa))) \<and>
            (\<forall>resp. r = Inr resp \<longrightarrow>
               (\<exists>q. last ((?req, x) # rest) = (q, Inr resp) \<and>
                  req_Method q = method \<and> req_URL q = BaseURL c @ path))"
    proof (cases x)
      case (Inl err)
      then have "r = x" "s1 = sa" using run unf by auto
      then show ?thesis using ea Inl by (intro exI[of _ "[]"]) (simp add: status_of_def)
    next
      case (Inr resp)
      show ?thesis
      proof (cases "StatusCode resp = 401")
        case False
        then have "r = x" "s1 = sa" using run unf Inr by auto
        then show ?thesis using ea Inr by (intro exI[of _ "[]"]) (simp add: status_of_def)
      next
        case True
        show ?thesis
        proof (cases "Header resp ''WWW-Authenticate'' = ''''")
          case basic: True
          let ?again = "\<lparr>req_Method = method, req_URL = BaseURL c @ path,
                  req_Header = headers, req_Body = unread env ?req (world sa),
                  req_ContentLength = None,
                  req_BasicAuth = Some (Username c, Password c)\<rparr>"
          obtain y sb where snd2: "send env ?again sa = (y, sb)" by (cases "send env ?again sa")
          have eb: "exchanges sb = exchanges sa @ [(?again, y)]" using send_exchanges[OF snd2] .
          have "r = y" "s1 = sb" using run unf Inr True basic snd2 by auto
          then show ?thesis using ea eb Inr True
            by (intro exI[of _ "[(?again, y)]"]) (simp add: status_of_def)
        next
          case bearer: False
          obtain t s2 where tok: "getBearerToken env c (Header resp ''WWW-Authenticate'') path sa = (t, s2)"
            by (cases "getBearerToken env c (Header resp ''WWW-Authenticate'') path sa")
          note et = getBearerToken_exchanges[OF tok]
          show ?thesis
          proof (cases t)
            case (Inl err)
            then have "r = Inl (wrap_error ''failed to get bearer token: '' err)" "s1 = s2"
              using run unf Inr True bearer tok by auto
            then show ?thesis using ea et Inr True
              by (elim disjE exE conjE)
                 ((rule exI[of _ "drop (Suc (length (exchanges s))) (exchanges s2)"],
                   simp add: status_of_def)+)
          next
            case tk: (Inr token)
            let ?again = "\<lparr>req_Method = method, req_URL = BaseURL c @ path,
                       req_Header = headers @ [(''Authorization'', ''Bearer '' @ token)],
                       req_Body = unread env ?req (world sa), req_ContentLength = None,
                       req_BasicAuth = None\<rparr>"
            obtain y sb where snd2: "send env ?again s2 = (y, sb)" by (cases "send env ?again s2")
            have eb: "exchanges sb = exchanges s2 @ [(?again, y)]" using send_exchanges[OF snd2] .
            have "r = y" "s1 = sb" using run unf Inr True bearer tok tk snd2 by auto
            then show ?thesis using ea eb et Inr True
              by (elim disjE exE conjE)
                 ((rule exI[of _ "drop (Suc (length (exchanges s))) (exchanges sb)"],
                   simp add: status_of_def)+)
          qed
        qed
      qed
    qed
    then show ?thesis by blast
  qed
qed

lemma GetManifest_Raw:
  assumes "GetManifest env c repository reference s = (Inr m, s1)"
  shows "\<exists>before q resp. exchanges s1 = exchanges s @ before @ [(q, Inr resp)] \<and>
          req_Method q = ''GET'' \<and>
          req_URL q = BaseURL c @ ''/v2/'' @ repository @ ''/manifests/'' @ reference \<and>
          StatusCode resp = 200 \<and> Body resp = Reader (Raw m) None \<and>
          ContentDigest m = Header resp ''Docker-Content-Digest''"
proof -
  let ?path = "''/v2/'' @ repository @ ''/manifests/'' @ reference"
  let ?req = "\<lparr>req_Method = ''GET'', req_URL = BaseURL c @ ?path,
               req_Header = [(''Accept'', buildAcceptHeader)], req_Body = None,
               req_ContentLength = None, req_BasicAuth = basic_auth c\<rparr>"
  obtain r s' where d: "doRequest env c ''GET'' ?path None [(''Accept'', buildAcceptHeader)] s = (r, s')"
    by (cases "doRequest env c ''GET'' ?path None [(''Accept'', buildAcceptHeader)] s")
  from assms d obtain resp where
    res: "r = Inr resp" "s1 = s'" "StatusCode resp = 200" "Body resp = Reader (Raw m) None"
         "ContentDigest m = Header resp ''Docker-Content-Digest''"
    by (auto simp: GetManifest_def Let_def
        split: sum.splits if_splits prod.splits option.splits dest: reader_eq)
  from doRequest_shape[OF d] res(1) obtain x rest q where
    sh: "exchanges s' = exchanges s @ (?req, x) # rest"
        "last ((?req, x) # rest) = (q, Inr resp)"
        "req_Method q = ''GET''" "req_URL q = BaseURL c @ ?path"
    by auto
  have "(?req, x) # rest = butlast ((?req, x) # rest) @ [(q, Inr resp)]"
    using sh(2) append_butlast_last_id[of "(?req, x) # rest"] by simp
  then have "exchanges s1 = exchanges s @ butlast ((?req, x) # rest) @ [(q, Inr resp)]"
    using sh(1) res(2) by simp
  then show ?thesis using sh(3,4) res(3,4,5) by (simp only: append_assoc) blast
qed

lemma PutManifest_request:
  "exchanges (snd (PutManifest env c repository reference m s)) = exchanges s \<or>
   (\<exists>x rest w.
      exchanges (snd (PutManifest env c repository reference m s)) = exchanges s @
        (\<lparr>req_Method = ''PUT'',
          req_URL = BaseURL c @ ''/v2/'' @ repository @ ''/manifests/'' @ reference,
          req_Header = [(''Content-Type'', MediaType m)],
          req_Body = Some (Reader (Raw m) None),
          req_ContentLength = None, req_BasicAuth = basic_auth c\<rparr>, x) # rest \<and>
      (status_of x \<noteq> Some 401 \<longrightarrow> rest = []) \<and>
      (\<forall>q \<in> set rest.
         (req_Method (fst q) = ''GET'' \<and> req_Body (fst q) = None) \<or>
         (req_Method (fst q) = ''PUT'' \<and>
          req_URL (fst q) = BaseURL c @ ''/v2/'' @ repository @ ''/manifests/'' @ reference \<and>
          req_Body (fst q) =
            unread env
              \<lparr>req_Method = ''PUT'',
                req_URL = BaseURL c @ ''/v2/'' @ repository @ ''/manifests/'' @ reference,
                req_Header = [(''Content-Type'', MediaType m)],
                req_Body = Some (Reader (Raw m) None),
                req_ContentLength = None, req_BasicAuth = basic_auth c\<rparr> w)))"
proof -
  let ?path = "''/v2/'' @ repository @ ''/manifests/'' @ reference"
  obtain r s' where d: "doRequest env c ''PUT'' ?path (Some (Reader (Raw m) None))
      [(''Content-Type'', MediaType m)] s = (r, s')"
    by (cases "doRequest env c ''PUT'' ?path (Some (Reader (Raw m) None))
      [(''Content-Type'', MediaType m)] s")
  have "snd (PutManifest env c repository reference m s) = s'"
    using d by (auto simp: PutManifest_def Let_def split: sum.splits)
  then show ?thesis using doRequest_shape[OF d] by (simp only: append_assoc) blast
qed

lemma initiateUpload_exchange:
  assumes "initiateUpload env c repository digest s = (r, s1)"
  shows "(exchanges s1 = exchanges s \<and> (\<exists>err. r = Inl err)) \<or>
         (\<exists>x rest. exchanges s1 = exchanges s @ (initiate_request c repository digest, x) # rest \<and>
            (\<forall>q \<in> set rest. req_Method (fst q) = ''GET'' \<or> req_Method (fst q) = ''POST'') \<and>
            (\<forall>uploadURL. r = Inr uploadURL \<longrightarrow>
               (\<exists>q resp. last ((initiate_request c repository digest, x) # rest) = (q, Inr resp) \<and>
                  req_Method q = ''POST'' \<and>
                  req_URL q = req_URL (initiate_request c repository digest) \<and>
                  StatusCode resp = 202 \<and>
                  uploadURL = resolve_location c (Header resp ''Location''))))"
proof -
  let ?path = "''/v2/'' @ repository @ ''/blobs/uploads/'' @
        (if digest \<noteq> '''' then ''?mount='' @ digest @ ''&from='' @ repository else '''')"
  obtain r0 s' where d: "doRequest env c ''POST'' ?path None [] s = (r0, s')"
    by (cases "doRequest env c ''POST'' ?path None [] s")
  have req: "\<lparr>req_Method = ''POST'', req_URL = BaseURL c @ ?path, req_Header = [],
               req_Body = None, req_ContentLength = None, req_BasicAuth = basic_auth c\<rparr> =
             initiate_request c repository digest"
    by (simp add: initiate_request_def)
  have unf: "initiateUpload env c repository digest s =
     (case r0 of
        Inl err \<Rightarrow> (Inl err, s')
      | Inr resp \<Rightarrow>
          if StatusCode resp = 201 then (Inl (plain_error ''blob already exists''), s')
          else if StatusCode resp \<noteq> 202 then
            (Inl (plain_error (''failed to initiate upload: '' @ itoa (StatusCode resp) @
                                '' '' @ fst (ReadAll (Body resp)))), s')
          else if Header resp ''Location'' = '''' then
                  (Inl (plain_error ''no location header in response''), s')
                else (Inr (resolve_location c (Header resp ''Location'')), s'))"
    using d by (cases "digest = []") (simp_all add: initiateUpload_def Let_def split: sum.splits)
  have st: "s1 = s'" using assms unf by (auto split: sum.splits if_splits)
  have res: "\<And>uploadURL. r = Inr uploadURL \<Longrightarrow>
      \<exists>resp. r0 = Inr resp \<and> StatusCode resp = 202 \<and>
        uploadURL = resolve_location c (Header resp ''Location'')"
    using assms unf by (auto split: sum.splits if_splits)
  have err: "(\<exists>e. r0 = Inl e) \<Longrightarrow> \<exists>e. r = Inl e"
    using assms unf by auto
  from doRequest_shape[OF d] show ?thesis
  proof (elim disjE exE conjE)
    fix e
    assume a: "exchanges s' = exchanges s" "r0 = Inl e"
    then show ?thesis using st err by simp
  next
    fix x rest w
    assume sh: "exchanges s' = exchanges s @
        (\<lparr>req_Method = ''POST'', req_URL = BaseURL c @ ?path, req_Header = [],
          req_Body = None, req_ContentLength = None, req_BasicAuth = basic_auth c\<rparr>, x) # rest"
      and methods: "\<forall>q \<in> set rest.
               (req_Method (fst q) = ''GET'' \<and> req_Body (fst q) = None) \<or>
               (req_Method (fst q) = ''POST'' \<and> req_URL (fst q) = BaseURL c @ ?path \<and>
                req_Body (fst q) =
                  unread env
                    \<lparr>req_Method = ''POST'', req_URL = BaseURL c @ ?path, req_Header = [],
                      req_Body = None, req_ContentLength = None,
                      req_BasicAuth = basic_auth c\<rparr> w)"
      and lst: "\<forall>resp. r0 = Inr resp \<longrightarrow>
               (\<exists>q. last
                  ((\<lparr>req_Method = ''POST'', req_URL = BaseURL c @ ?path, req_Header = [],
                     req_Body = None, req_ContentLength = None,
                     req_BasicAuth = basic_auth c\<rparr>, x) # rest) = (q, Inr resp) \<and>
                  req_Method q = ''POST'' \<and> req_URL q = BaseURL c @ ?path)"
    have 1: "exchanges s1 = exchanges s @ (initiate_request c repository digest, x) # rest"
      using sh st req by simp
    have 2: "\<forall>q \<in> set rest. req_Method (fst q) = ''GET'' \<or> req_Method (fst q) = ''POST''"
      using methods by blast
    have 3: "\<forall>uploadURL. r = Inr uploadURL \<longrightarrow>
               (\<exists>q resp. last ((initiate_request c repository digest, x) # rest) = (q, Inr resp) \<and>
                  req_Method q = ''POST'' \<and>
                  req_URL q = req_URL (initiate_request c repository digest) \<and>
                  StatusCode resp = 202 \<and>
                  uploadURL = resolve_location c (Header resp ''Location''))"
    proof (intro allI impI)
      fix uploadURL assume "r = Inr uploadURL"
      from res[OF this] obtain resp where
        r: "r0 = Inr resp" "StatusCode resp = 202"
           "uploadURL = resolve_location c (Header resp ''Location'')" by blast
      from lst r(1) obtain q where
        "last ((\<lparr>req_Method = ''POST'', req_URL = BaseURL c @ ?path, req_Header = [],
                     req_Body = None, req_ContentLength = None,
                     req_BasicAuth = basic_auth c\<rparr>, x) # rest) = (q, Inr resp)"
        "req_Method q = ''POST''" "req_URL q = BaseURL c @ ?path" by blast
      then show "\<exists>q resp. last ((initiate_request c repository digest, x) # rest) = (q, Inr resp) \<and>
                  req_Method q = ''POST'' \<and>
                  req_URL q = req_URL (initiate_request c repository digest) \<and>
                  StatusCode resp = 202 \<and>
                  uploadURL = resolve_location c (Header resp ''Location'')"
        using r(2,3) req[symmetric] by (intro exI[of _ q] exI[of _ resp]) (simp add: initiate_request_def)
    qed
    show ?thesis using 1 2 3 by blast
  qed
qed

lemma uploadContent_exchange:
  assumes "uploadContent env c uploadURL content size' s = (r, s1)"
  shows "(case r of
            Inl err \<Rightarrow> exchanges s1 = exchanges s \<or>
              (\<exists>x. exchanges s1 = exchanges s @ [(patch_request c uploadURL content size', x)])
          | Inr newURL \<Rightarrow> \<exists>resp. StatusCode resp = 202 \<and>
              exchanges s1 = exchanges s @ [(patch_request c uploadURL content size', Inr resp)] \<and>
              newURL = resolve_location c (Header resp ''Location''))"
proof -
  obtain x s' where snd: "send env (patch_request c uploadURL content size') s = (x, s')"
    by (cases "send env (patch_request c uploadURL content size') s")
  have ex: "exchanges s' = exchanges s @ [(patch_request c uploadURL content size', x)]"
    using send_exchanges[OF snd] .
  show ?thesis
    using assms snd ex
    by (auto simp: uploadContent_def patch_request_def Let_def
        split: sum.splits if_splits prod.splits option.splits)
qed

lemma completeUpload_exchange:
  assumes "completeUpload env c uploadURL digest s = (r, s1)"
  shows "(case r of
            Some err \<Rightarrow> exchanges s1 = exchanges s \<or>
              (\<exists>u x. exchanges s1 = exchanges s @ [(put_request c u, x)] \<and>
                     status_of x \<noteq> Some 201)
          | None \<Rightarrow> \<exists>u resp. set_digest_query env uploadURL digest = Inr u \<and>
              StatusCode resp = 201 \<and>
              exchanges s1 = exchanges s @ [(put_request c u, Inr resp)])"
proof (cases "set_digest_query env uploadURL digest")
  case (Inl err)
  then show ?thesis using assms by (auto simp: completeUpload_def)
next
  case (Inr u)
  obtain x s' where snd: "send env (put_request c u) s = (x, s')"
    by (cases "send env (put_request c u) s")
  have ex: "exchanges s' = exchanges s @ [(put_request c u, x)]"
    using send_exchanges[OF snd] .
  show ?thesis
  proof (cases "NewRequest env ''PUT'' u")
    case (Some err)
    have "completeUpload env c uploadURL digest s = (Some err, s)"
      by (simp add: completeUpload_def Inr Some)
    then have "r = Some err" "s1 = s" using assms by simp_all
    then show ?thesis by simp
  next
    case None
    then show ?thesis
      using assms snd ex Inr
      by (auto simp: completeUpload_def put_request_def Let_def status_of_def
          split: sum.splits if_splits prod.splits)
  qed
qed

lemma method_literals:
  "''PUT'' \<noteq> ''POST''" "''PUT'' \<noteq> ''GET''" "''PUT'' \<noteq> ''PATCH''"
  by simp_all

text \<open>
  The exchanges of a \<open>PutBlob\<close> that fails do not end with a PUT answered 201; those
  of one that succeeds end with the three steps.
\<close>

lemma PutBlob_steps_aux:
  assumes "PutBlob env c repository digest content size' s = (r, s')"
  shows "(r \<noteq> None \<and>
          (exchanges s' = exchanges s \<or>
           (exchanges s' \<noteq> [] \<and>
            (req_Method (fst (last (exchanges s'))) \<noteq> ''PUT'' \<or>
             status_of (snd (last (exchanges s'))) \<noteq> Some 201))))
       \<or> (r = None \<and>
            (\<exists>before q r1 r2 r3 u.
               exchanges s' = exchanges s @ before @
                 [(q, Inr r1),
                  (patch_request c (resolve_location c (Header r1 ''Location'')) content size', Inr r2),
                  (put_request c u, Inr r3)] \<and>
               req_Method q = ''POST'' \<and>
               req_URL q = req_URL (initiate_request c repository digest) \<and>
               StatusCode r1 = 202 \<and> StatusCode r2 = 202 \<and> StatusCode r3 = 201 \<and>
               set_digest_query env (resolve_location c (Header r2 ''Location'')) digest = Inr u))"
proof -
  obtain ri s1 where i: "initiateUpload env c repository digest s = (ri, s1)"
    by (cases "initiateUpload env c repository digest s")
  note k1 = initiateUpload_exchange[OF i]
  show ?thesis
  proof (cases ri)
    case (Inl err)
    then have res: "r \<noteq> None" "s' = s1" using assms i by (auto simp: PutBlob_def)
    from k1 show ?thesis
    proof (elim disjE exE conjE)
      fix e assume "exchanges s1 = exchanges s"
      then show ?thesis using res by simp
    next
      fix x rest
      assume sh: "exchanges s1 = exchanges s @ (initiate_request c repository digest, x) # rest"
        and ms: "\<forall>q \<in> set rest. req_Method (fst q) = ''GET'' \<or> req_Method (fst q) = ''POST''"
      have "last (exchanges s1) \<in> set ((initiate_request c repository digest, x) # rest)"
        using sh by (metis last_appendR last_in_set list.distinct(1))
      then have "req_Method (fst (last (exchanges s1))) = ''GET'' \<or>
                 req_Method (fst (last (exchanges s1))) = ''POST''"
        using ms by (auto simp: initiate_request_def)
      then have "req_Method (fst (last (exchanges s1))) \<noteq> ''PUT''" by auto
      then show ?thesis using res sh by simp
    qed
  next
    case (Inr uploadURL)
    from k1 Inr obtain x rest q resp1 where
      sh: "exchanges s1 = exchanges s @ (initiate_request c repository digest, x) # rest"
      and lst: "last ((initiate_request c repository digest, x) # rest) = (q, Inr resp1)"
      and q: "req_Method q = ''POST''" "req_URL q = req_URL (initiate_request c repository digest)"
      and r1: "StatusCode resp1 = 202" "uploadURL = resolve_location c (Header resp1 ''Location'')"
      by blast
    define before where "before = butlast ((initiate_request c repository digest, x) # rest)"
    have e1: "exchanges s1 = exchanges s @ before @ [(q, Inr resp1)]"
      using sh lst append_butlast_last_id[of "(initiate_request c repository digest, x) # rest"]
      by (simp add: before_def)
    obtain r2 s2 where u: "uploadContent env c uploadURL content size' s1 = (r2, s2)"
      by (cases "uploadContent env c uploadURL content size' s1")
    note k2 = uploadContent_exchange[OF u]
    show ?thesis
    proof (cases r2)
      case (Inl err)
      then have res: "r \<noteq> None" "s' = s2" using assms i Inr u by (auto simp: PutBlob_def)
      have "exchanges s2 = exchanges s1 \<or>
            (\<exists>y. exchanges s2 = exchanges s1 @ [(patch_request c uploadURL content size', y)])"
        using k2 Inl by simp
      then have "exchanges s2 \<noteq> [] \<and> req_Method (fst (last (exchanges s2))) \<noteq> ''PUT''"
        using e1 q by (auto simp: patch_request_def)
      then show ?thesis using res by simp
    next
      case new: (Inr newURL)
      then obtain resp2 where y: "StatusCode resp2 = 202"
          "exchanges s2 = exchanges s1 @ [(patch_request c uploadURL content size', Inr resp2)]"
          "newURL = resolve_location c (Header resp2 ''Location'')"
        using k2 by auto
      obtain r3 s3 where cu: "completeUpload env c newURL digest s2 = (r3, s3)"
        by (cases "completeUpload env c newURL digest s2")
      note k3 = completeUpload_exchange[OF cu]
      have res: "(r = None) = (r3 = None)" "s' = s3"
        using assms i Inr u new cu by (auto simp: PutBlob_def split: option.splits)
      show ?thesis
      proof (cases r3)
        case None
        then obtain u3 resp3 where z:
          "set_digest_query env newURL digest = Inr u3" "StatusCode resp3 = 201"
          "exchanges s3 = exchanges s2 @ [(put_request c u3, Inr resp3)]"
          using k3 by auto
        have "exchanges s' = exchanges s @ before @
                 [(q, Inr resp1),
                  (patch_request c (resolve_location c (Header resp1 ''Location'')) content size',
                   Inr resp2),
                  (put_request c u3, Inr resp3)]"
          using res(2) z(3) y(2) e1 r1(2) by simp
        then show ?thesis using res(1) None q r1(1) y(1,3) z(1,2) by blast
      next
        case (Some err)
        then have "exchanges s3 = exchanges s2 \<or>
              (\<exists>u3 x3. exchanges s3 = exchanges s2 @ [(put_request c u3, x3)] \<and>
                     status_of x3 \<noteq> Some 201)"
          using k3 by simp
        then have "exchanges s3 \<noteq> [] \<and>
            (req_Method (fst (last (exchanges s3))) \<noteq> ''PUT'' \<or>
             status_of (snd (last (exchanges s3))) \<noteq> Some 201)"
          using y(2) by (auto simp: patch_request_def)
        then show ?thesis using res Some by simp
      qed
    qed
  qed
qed

lemma PutBlob_first_exchange:
  "exchanges (snd (PutBlob env c repository digest content size' s)) = exchanges s \<or>
   (\<exists>x rest. exchanges (snd (PutBlob env c repository digest content size' s)) =
      exchanges s @ (initiate_request c repository digest, x) # rest)"
proof -
  obtain ri s1 where i: "initiateUpload env c repository digest s = (ri, s1)"
    by (cases "initiateUpload env c repository digest s")
  note k1 = initiateUpload_exchange[OF i]
  show ?thesis
  proof (cases ri)
    case (Inl err)
    then have "snd (PutBlob env c repository digest content size' s) = s1"
      using i by (simp add: PutBlob_def)
    then show ?thesis using k1 by auto
  next
    case (Inr uploadURL)
    from k1 Inr obtain x rest where
      sh: "exchanges s1 = exchanges s @ (initiate_request c repository digest, x) # rest"
      by blast
    obtain r2 s2 where u: "uploadContent env c uploadURL content size' s1 = (r2, s2)"
      by (cases "uploadContent env c uploadURL content size' s1")
    note k2 = uploadContent_exchange[OF u]
    show ?thesis
    proof (cases r2)
      case (Inl err)
      then have "snd (PutBlob env c repository digest content size' s) = s2"
        using i Inr u by (simp add: PutBlob_def)
      then show ?thesis using k2 Inl sh by auto
    next
      case new: (Inr newURL)
      then obtain y where y: "exchanges s2 = exchanges s1 @ [y]" using k2 by auto
      obtain r3 s3 where cu: "completeUpload env c newURL digest s2 = (r3, s3)"
        by (cases "completeUpload env c newURL digest s2")
      note k3 = completeUpload_exchange[OF cu]
      have "snd (PutBlob env c repository digest content size' s) = s3"
        using i Inr u new cu by (simp add: PutBlob_def split: option.splits)
      moreover have "exchanges s3 = exchanges s2 \<or> (\<exists>z. exchanges s3 = exchanges s2 @ [z])"
        using k3 by (cases r3) auto
      ultimately show ?thesis using y sh by auto
    qed
  qed
qed

lemma PutBlob_stops_after_POST:
  assumes "doRequest env c ''POST''
             (''/v2/'' @ repository @ ''/blobs/uploads/'' @
              (if digest \<noteq> '''' then ''?mount='' @ digest @ ''&from='' @ repository else ''''))
             None [] s = (r, s1)"
    and "\<forall>r1. r = Inr r1 \<longrightarrow> StatusCode r1 \<noteq> 202 \<or> Header r1 ''Location'' = ''''"
  shows "fst (PutBlob env c repository digest content size' s) \<noteq> None \<and>
         snd (PutBlob env c repository digest content size' s) = s1"
  using assms
  by (cases "digest = []"; cases r)
     (auto simp: PutBlob_def initiateUpload_def Let_def split: if_splits)

lemma PutBlob_after_POST:
  assumes "doRequest env c ''POST''
             (''/v2/'' @ repository @ ''/blobs/uploads/'' @
              (if digest \<noteq> '''' then ''?mount='' @ digest @ ''&from='' @ repository else ''''))
             None [] s = (Inr r1, s1)"
    and "StatusCode r1 = 202" "Header r1 ''Location'' \<noteq> ''''"
  shows "PutBlob env c repository digest content size' s =
     (case uploadContent env c (resolve_location c (Header r1 ''Location'')) content size' s1 of
        (Inl err, s2) \<Rightarrow> (Some (wrap_error ''failed to upload content: '' err), s2)
      | (Inr newUploadURL, s2) \<Rightarrow>
          (case completeUpload env c newUploadURL digest s2 of
             (Some err, s3) \<Rightarrow> (Some (wrap_error ''failed to complete upload: '' err), s3)
           | (None, s3) \<Rightarrow> (None, s3)))"
  using assms
  by (cases "digest = []") (auto simp: PutBlob_def initiateUpload_def Let_def)

lemma PutBlob_stops_before_PATCH:
  assumes "doRequest env c ''POST''
             (''/v2/'' @ repository @ ''/blobs/uploads/'' @
              (if digest \<noteq> '''' then ''?mount='' @ digest @ ''&from='' @ repository else ''''))
             None [] s = (Inr r1, s1)"
    and "StatusCode r1 = 202" "Header r1 ''Location'' \<noteq> ''''"
    and "NewRequest env ''PATCH'' (resolve_location c (Header r1 ''Location'')) \<noteq> None"
  shows "fst (PutBlob env c repository digest content size' s) \<noteq> None \<and>
         snd (PutBlob env c repository digest content size' s) = s1"
  using assms(4)
  by (auto simp: PutBlob_after_POST[OF assms(1,2,3)] uploadContent_def)

lemma PutBlob_after_PATCH:
  assumes "doRequest env c ''POST''
             (''/v2/'' @ repository @ ''/blobs/uploads/'' @
              (if digest \<noteq> '''' then ''?mount='' @ digest @ ''&from='' @ repository else ''''))
             None [] s = (Inr r1, s1)"
    and "StatusCode r1 = 202" "Header r1 ''Location'' \<noteq> ''''"
    and "NewRequest env ''PATCH'' (resolve_location c (Header r1 ''Location'')) = None"
    and "send env (patch_request c (resolve_location c (Header r1 ''Location'')) content size') s1 =
           (x2, s2)"
  shows "PutBlob env c repository digest content size' s =
     (case x2 of
        Inl err \<Rightarrow> (Some (wrap_error ''failed to upload content: '' err), s2)
      | Inr r2 \<Rightarrow>
          if StatusCode r2 \<noteq> 202 then
            (Some (wrap_error ''failed to upload content: ''
               (plain_error (''failed to upload content: '' @ itoa (StatusCode r2) @
                               '' '' @ fst (ReadAll (Body r2))))), s2)
          else if Header r2 ''Location'' = '''' then
            (Some (wrap_error ''failed to upload content: ''
               (plain_error ''no location header in PATCH response'')), s2)
          else
            (case completeUpload env c (resolve_location c (Header r2 ''Location'')) digest s2 of
               (Some err, s3) \<Rightarrow> (Some (wrap_error ''failed to complete upload: '' err), s3)
             | (None, s3) \<Rightarrow> (None, s3)))"
  unfolding PutBlob_after_POST[OF assms(1,2,3)] uploadContent_def
  using assms(4,5)
  by (cases "0 < size'") (simp_all add: Let_def patch_request_def split: sum.splits)

lemma completeUpload_sends:
  assumes "set_digest_query env uploadURL digest = Inr u" "NewRequest env ''PUT'' u = None"
    and "send env (put_request c u) s2 = (x3, s3)"
  shows "snd (completeUpload env c uploadURL digest s2) = s3 \<and>
         (fst (completeUpload env c uploadURL digest s2) = None \<longleftrightarrow> status_of x3 = Some 201)"
proof -
  have req: "\<lparr>req_Method = ''PUT'', req_URL = u,
       req_Header = [(''Content-Length'', ''0'')], req_Body = None,
       req_ContentLength = None, req_BasicAuth = basic_auth c\<rparr> = put_request c u"
    by (simp add: put_request_def)
  show ?thesis
    using assms by (auto simp: completeUpload_def Let_def req status_of_def split: sum.splits)
qed

lemma completeUpload_refused:
  assumes "\<forall>u. set_digest_query env uploadURL digest = Inr u \<longrightarrow> NewRequest env ''PUT'' u \<noteq> None"
  shows "snd (completeUpload env c uploadURL digest s2) = s2 \<and>
         fst (completeUpload env c uploadURL digest s2) \<noteq> None"
  using assms by (auto simp: completeUpload_def split: sum.splits option.splits)

lemma doRequest_no_exchange:
  "exchanges (snd (doRequest env c method path body headers s)) = exchanges s \<longleftrightarrow>
   fst (Limiter_Wait env c s) \<noteq> None \<or> NewRequest env method (BaseURL c @ path) \<noteq> None"
proof -
  obtain r s1 where d: "doRequest env c method path body headers s = (r, s1)"
    by (cases "doRequest env c method path body headers s")
  obtain r0 s0 where lim: "Limiter_Wait env c s = (r0, s0)"
    by (cases "Limiter_Wait env c s")
  have e0: "exchanges s0 = exchanges s" using Limiter_Wait_exchanges[OF lim] .
  show ?thesis
  proof (cases "r0 \<noteq> None \<or> NewRequest env method (BaseURL c @ path) \<noteq> None")
    case True
    then have "exchanges s1 = exchanges s"
      using d lim e0 by (auto simp: doRequest_def Let_def split: option.splits)
    then show ?thesis using True d lim by simp
  next
    case False
    then have ok: "r0 = None" "NewRequest env method (BaseURL c @ path) = None" by auto
    let ?req = "\<lparr>req_Method = method, req_URL = BaseURL c @ path, req_Header = headers,
               req_Body = body, req_ContentLength = None, req_BasicAuth = basic_auth c\<rparr>"
    from doRequest_shape[OF d] have
      "(exchanges s1 = exchanges s \<and> (\<exists>err. r = Inl err)) \<or>
       (\<exists>x rest. exchanges s1 = exchanges s @ (?req, x) # rest)"
      by blast
    moreover have "exchanges s1 \<noteq> exchanges s"
    proof -
      obtain x sa where snd: "send env ?req s0 = (x, sa)" by (cases "send env ?req s0")
      have ea: "exchanges sa = exchanges s @ [(?req, x)]"
        using send_exchanges[OF snd] e0 by simp
      have "\<exists>rest. exchanges s1 = exchanges s @ (?req, x) # rest"
      proof (cases x)
        case (Inl err)
        then have "s1 = sa" using d lim ok snd by (simp add: doRequest_def Let_def)
        then show ?thesis using ea by simp
      next
        case (Inr resp)
        show ?thesis
        proof (cases "StatusCode resp = 401")
          case False
          then have "s1 = sa" using d lim ok snd Inr by (simp add: doRequest_def Let_def)
          then show ?thesis using ea by simp
        next
          case True
          show ?thesis
          proof (cases "Header resp ''WWW-Authenticate'' = ''''")
            case basic: True
            obtain y sb where s2: "send env
                \<lparr>req_Method = method, req_URL = BaseURL c @ path, req_Header = headers,
                 req_Body = unread env ?req (world sa), req_ContentLength = None,
                 req_BasicAuth = Some (Username c, Password c)\<rparr> sa = (y, sb)"
              by (cases "send env
                \<lparr>req_Method = method, req_URL = BaseURL c @ path, req_Header = headers,
                 req_Body = unread env ?req (world sa), req_ContentLength = None,
                 req_BasicAuth = Some (Username c, Password c)\<rparr> sa")
            have "s1 = sb" using d lim ok snd Inr True basic s2
              by (simp add: doRequest_def Let_def)
            then show ?thesis using ea send_exchanges[OF s2] by simp
          next
            case bearer: False
            obtain t st where tok:
              "getBearerToken env c (Header resp ''WWW-Authenticate'') path sa = (t, st)"
              by (cases "getBearerToken env c (Header resp ''WWW-Authenticate'') path sa")
            note et = getBearerToken_exchanges[OF tok]
            show ?thesis
            proof (cases t)
              case (Inl err)
              then have "s1 = st" using d lim ok snd Inr True bearer tok
                by (simp add: doRequest_def Let_def)
              then show ?thesis using ea et by auto
            next
              case tk: (Inr token)
              obtain y sb where s2: "send env
                  \<lparr>req_Method = method, req_URL = BaseURL c @ path,
                   req_Header = headers @ [(''Authorization'', ''Bearer '' @ token)],
                   req_Body = unread env ?req (world sa), req_ContentLength = None,
                   req_BasicAuth = None\<rparr> st = (y, sb)"
                by (cases "send env
                  \<lparr>req_Method = method, req_URL = BaseURL c @ path,
                   req_Header = headers @ [(''Authorization'', ''Bearer '' @ token)],
                   req_Body = unread env ?req (world sa), req_ContentLength = None,
                   req_BasicAuth = None\<rparr> st")
              have "s1 = sb" using d lim ok snd Inr True bearer tok tk s2
                by (simp add: doRequest_def Let_def)
              then show ?thesis using ea et send_exchanges[OF s2] by auto
            qed
          qed
        qed
      qed
      then show ?thesis by auto
    qed
    ultimately show ?thesis using False d lim by simp
  qed
qed

lemma PutBlob_extends_POST:
  "\<exists>rest. exchanges (snd (PutBlob env c repository digest content size' s)) =
      exchanges (snd (doRequest env c ''POST''
             (''/v2/'' @ repository @ ''/blobs/uploads/'' @
              (if digest \<noteq> '''' then ''?mount='' @ digest @ ''&from='' @ repository else ''''))
             None [] s)) @ rest"
proof -
  let ?post = "doRequest env c ''POST''
             (''/v2/'' @ repository @ ''/blobs/uploads/'' @
              (if digest \<noteq> '''' then ''?mount='' @ digest @ ''&from='' @ repository else ''''))
             None [] s"
  obtain r s1 where d: "?post = (r, s1)" by (cases ?post)
  show ?thesis
  proof (cases "\<exists>r1. r = Inr r1 \<and> StatusCode r1 = 202 \<and> Header r1 ''Location'' \<noteq> ''''")
    case False
    then have "\<forall>r1. r = Inr r1 \<longrightarrow> StatusCode r1 \<noteq> 202 \<or> Header r1 ''Location'' = ''''"
      by blast
    from PutBlob_stops_after_POST[OF d this, of content size'] show ?thesis using d by simp
  next
    case True
    then obtain r1 where r: "r = Inr r1" "StatusCode r1 = 202" "Header r1 ''Location'' \<noteq> ''''"
      by blast
    note unf = PutBlob_after_POST[OF d[unfolded r(1)] r(2,3), of content size']
    obtain r2 s2 where u: "uploadContent env c (resolve_location c (Header r1 ''Location''))
        content size' s1 = (r2, s2)"
      by (cases "uploadContent env c (resolve_location c (Header r1 ''Location''))
        content size' s1")
    note k2 = uploadContent_exchange[OF u]
    show ?thesis
    proof (cases r2)
      case (Inl err)
      then show ?thesis using unf u k2 d by auto
    next
      case (Inr newURL)
      obtain r3 s3 where cu: "completeUpload env c newURL digest s2 = (r3, s3)"
        by (cases "completeUpload env c newURL digest s2")
      note k3 = completeUpload_exchange[OF cu]
      have st: "snd (PutBlob env c repository digest content size' s) = s3"
        using unf u Inr cu by (simp split: option.splits)
      have "\<exists>y. exchanges s2 = exchanges s1 @ [y]" using k2 Inr by auto
      moreover have "exchanges s3 = exchanges s2 \<or> (\<exists>z. exchanges s3 = exchanges s2 @ [z])"
        using k3 by (cases r3) auto
      ultimately show ?thesis using st d by auto
    qed
  qed
qed

lemma PutBlob_no_exchange:
  "exchanges (snd (PutBlob env c repository digest content size' s)) = exchanges s \<longleftrightarrow>
   fst (Limiter_Wait env c s) \<noteq> None \<or>
   NewRequest env ''POST'' (req_URL (initiate_request c repository digest)) \<noteq> None"
proof -
  let ?path = "''/v2/'' @ repository @ ''/blobs/uploads/'' @
              (if digest \<noteq> '''' then ''?mount='' @ digest @ ''&from='' @ repository else '''')"
  let ?post = "doRequest env c ''POST'' ?path None [] s"
  have url: "req_URL (initiate_request c repository digest) = BaseURL c @ ?path"
    by (simp add: initiate_request_def)
  note n = doRequest_no_exchange[of env c "''POST''" ?path None "[]" s]
  obtain rest where ext: "exchanges (snd (PutBlob env c repository digest content size' s)) =
      exchanges (snd ?post) @ rest"
    using PutBlob_extends_POST by blast
  obtain r s1 where d: "?post = (r, s1)" by (cases ?post)
  show ?thesis
  proof (cases "fst (Limiter_Wait env c s) \<noteq> None \<or>
      NewRequest env ''POST'' (BaseURL c @ ?path) \<noteq> None")
    case True
    then have e: "exchanges s1 = exchanges s" using n d by simp
    obtain err where "r = Inl err"
      using doRequest_shape[OF d] e by auto
    then have "\<forall>r1. r = Inr r1 \<longrightarrow> StatusCode r1 \<noteq> 202 \<or> Header r1 ''Location'' = ''''"
      by simp
    from PutBlob_stops_after_POST[OF d this, of content size'] show ?thesis
      using True e url by simp
  next
    case False
    then have "exchanges s1 \<noteq> exchanges s" using n d by simp
    moreover obtain ext1 where "exchanges s1 = exchanges s @ ext1"
      using doRequest_shape[OF d] by auto
    ultimately have "exchanges (snd (PutBlob env c repository digest content size' s)) \<noteq>
        exchanges s"
      using ext d by auto
    then show ?thesis using False url by simp
  qed
qed

lemma PutBlob_PATCH_and_PUT:
  assumes post: "doRequest env c ''POST''
             (''/v2/'' @ repository @ ''/blobs/uploads/'' @
              (if digest \<noteq> '''' then ''?mount='' @ digest @ ''&from='' @ repository else ''''))
             None [] s = (Inr r1, s1)"
    and ok1: "StatusCode r1 = 202" "Header r1 ''Location'' \<noteq> ''''"
    and new: "NewRequest env ''PATCH'' (resolve_location c (Header r1 ''Location'')) = None"
    and patch: "send env
        (patch_request c (resolve_location c (Header r1 ''Location'')) content size') s1 = (x2, s2)"
  shows "(\<exists>rest. exchanges (snd (PutBlob env c repository digest content size' s)) =
            exchanges s1 @
            (patch_request c (resolve_location c (Header r1 ''Location'')) content size', x2) # rest)
     \<and> ((\<forall>r2. x2 = Inr r2 \<longrightarrow> StatusCode r2 \<noteq> 202 \<or> Header r2 ''Location'' = '''') \<longrightarrow>
          fst (PutBlob env c repository digest content size' s) \<noteq> None \<and>
          snd (PutBlob env c repository digest content size' s) = s2)
     \<and> (\<forall>r2. x2 = Inr r2 \<and> StatusCode r2 = 202 \<and> Header r2 ''Location'' \<noteq> '''' \<longrightarrow>
          ((\<forall>u. set_digest_query env (resolve_location c (Header r2 ''Location'')) digest = Inr u \<longrightarrow>
                NewRequest env ''PUT'' u \<noteq> None) \<longrightarrow>
             fst (PutBlob env c repository digest content size' s) \<noteq> None \<and>
             snd (PutBlob env c repository digest content size' s) = s2) \<and>
          (\<forall>u x3 s3.
             set_digest_query env (resolve_location c (Header r2 ''Location'')) digest = Inr u \<and>
             NewRequest env ''PUT'' u = None \<and>
             send env (put_request c u) s2 = (x3, s3) \<longrightarrow>
             snd (PutBlob env c repository digest content size' s) = s3 \<and>
             exchanges s3 = exchanges s1 @
               [(patch_request c (resolve_location c (Header r1 ''Location'')) content size', x2),
                (put_request c u, x3)] \<and>
             (fst (PutBlob env c repository digest content size' s) = None \<longleftrightarrow>
                status_of x3 = Some 201)))"
proof -
  let ?P = "PutBlob env c repository digest content size' s"
  note unf = PutBlob_after_PATCH[OF post ok1 new patch]
  have e2: "exchanges s2 = exchanges s1 @
      [(patch_request c (resolve_location c (Header r1 ''Location'')) content size', x2)]"
    using send_exchanges[OF patch] .
  have stop: "(\<forall>r2. x2 = Inr r2 \<longrightarrow> StatusCode r2 \<noteq> 202 \<or> Header r2 ''Location'' = '''') \<Longrightarrow>
          fst ?P \<noteq> None \<and> snd ?P = s2"
    unfolding unf by (cases x2) auto
  have go: "\<And>r2. x2 = Inr r2 \<Longrightarrow> StatusCode r2 = 202 \<Longrightarrow> Header r2 ''Location'' \<noteq> '''' \<Longrightarrow>
      ?P = (case completeUpload env c (resolve_location c (Header r2 ''Location'')) digest s2 of
               (Some err, s3) \<Rightarrow> (Some (wrap_error ''failed to complete upload: '' err), s3)
             | (None, s3) \<Rightarrow> (None, s3))"
    unfolding unf by simp
  have refused: "\<And>r2. x2 = Inr r2 \<Longrightarrow> StatusCode r2 = 202 \<Longrightarrow> Header r2 ''Location'' \<noteq> '''' \<Longrightarrow>
      (\<forall>u. set_digest_query env (resolve_location c (Header r2 ''Location'')) digest = Inr u \<longrightarrow>
                NewRequest env ''PUT'' u \<noteq> None) \<Longrightarrow> fst ?P \<noteq> None \<and> snd ?P = s2"
  proof -
    fix r2 assume a: "x2 = Inr r2" "StatusCode r2 = 202" "Header r2 ''Location'' \<noteq> ''''"
      and b: "\<forall>u. set_digest_query env (resolve_location c (Header r2 ''Location'')) digest = Inr u \<longrightarrow>
                NewRequest env ''PUT'' u \<noteq> None"
    from completeUpload_refused[OF b, of c s2] show "fst ?P \<noteq> None \<and> snd ?P = s2"
      unfolding go[OF a]
      by (cases "completeUpload env c (resolve_location c (Header r2 ''Location'')) digest s2")
         (auto split: option.splits)
  qed
  have sent: "\<And>r2 u x3 s3. x2 = Inr r2 \<Longrightarrow> StatusCode r2 = 202 \<Longrightarrow>
      Header r2 ''Location'' \<noteq> '''' \<Longrightarrow>
      set_digest_query env (resolve_location c (Header r2 ''Location'')) digest = Inr u \<Longrightarrow>
      NewRequest env ''PUT'' u = None \<Longrightarrow> send env (put_request c u) s2 = (x3, s3) \<Longrightarrow>
      snd ?P = s3 \<and>
      exchanges s3 = exchanges s1 @
               [(patch_request c (resolve_location c (Header r1 ''Location'')) content size', x2),
                (put_request c u, x3)] \<and>
      (fst ?P = None \<longleftrightarrow> status_of x3 = Some 201)"
  proof -
    fix r2 u x3 s3
    assume a: "x2 = Inr r2" "StatusCode r2 = 202" "Header r2 ''Location'' \<noteq> ''''"
      and q: "set_digest_query env (resolve_location c (Header r2 ''Location'')) digest = Inr u"
        "NewRequest env ''PUT'' u = None" "send env (put_request c u) s2 = (x3, s3)"
    note cs = completeUpload_sends[OF q, of ]
    have e3: "exchanges s3 = exchanges s2 @ [(put_request c u, x3)]"
      using send_exchanges[OF q(3)] .
    show "snd ?P = s3 \<and>
      exchanges s3 = exchanges s1 @
               [(patch_request c (resolve_location c (Header r1 ''Location'')) content size', x2),
                (put_request c u, x3)] \<and>
      (fst ?P = None \<longleftrightarrow> status_of x3 = Some 201)"
      unfolding go[OF a] using cs e3 e2
      by (cases "completeUpload env c (resolve_location c (Header r2 ''Location'')) digest s2")
         (auto split: option.splits)
  qed
  have first: "\<exists>rest. exchanges (snd ?P) = exchanges s1 @
            (patch_request c (resolve_location c (Header r1 ''Location'')) content size', x2) # rest"
  proof (cases "\<exists>r2. x2 = Inr r2 \<and> StatusCode r2 = 202 \<and> Header r2 ''Location'' \<noteq> ''''")
    case False
    then have "snd ?P = s2" using stop by blast
    then show ?thesis using e2 by simp
  next
    case True
    then obtain r2 where a: "x2 = Inr r2" "StatusCode r2 = 202" "Header r2 ''Location'' \<noteq> ''''"
      by blast
    obtain r3 s3 where cu:
      "completeUpload env c (resolve_location c (Header r2 ''Location'')) digest s2 = (r3, s3)"
      by (cases "completeUpload env c (resolve_location c (Header r2 ''Location'')) digest s2")
    have "snd ?P = s3" unfolding go[OF a] using cu by (simp split: option.splits)
    moreover have "exchanges s3 = exchanges s2 \<or> (\<exists>z. exchanges s3 = exchanges s2 @ [z])"
      using completeUpload_exchange[OF cu] by (cases r3) auto
    ultimately show ?thesis using e2 by auto
  qed
  show ?thesis
    using first stop refused sent by (intro conjI allI impI) blast+
qed

text \<open>
  In every environment a fetched manifest holds the bytes of the response, and the
  first request of \<open>PutManifest\<close> carries them; a request repeated after a 401 carries
  what the first exchange left unread.
\<close>

lemma manifest_raw_first_request:
  assumes "GetManifest env source sourceRepo reference s = (Inr m, s1)"
  shows "\<exists>resp.
           (\<exists>before q. exchanges s1 = exchanges s @ before @ [(q, Inr resp)] \<and>
              req_Method q = ''GET'' \<and>
              req_URL q = BaseURL source @ ''/v2/'' @ sourceRepo @ ''/manifests/'' @ reference) \<and>
           StatusCode resp = 200 \<and> Body resp = Reader (Raw m) None \<and>
           (exchanges (snd (PutManifest env target targetRepo tag m s2)) = exchanges s2 \<or>
            (\<exists>x rest w.
               exchanges (snd (PutManifest env target targetRepo tag m s2)) = exchanges s2 @
                 (\<lparr>req_Method = ''PUT'',
                   req_URL = BaseURL target @ ''/v2/'' @ targetRepo @ ''/manifests/'' @ tag,
                   req_Header = [(''Content-Type'', MediaType m)],
                   req_Body = Some (Body resp),
                   req_ContentLength = None, req_BasicAuth = basic_auth target\<rparr>, x) # rest \<and>
               (status_of x \<noteq> Some 401 \<longrightarrow> rest = []) \<and>
               (\<forall>q \<in> set rest.
                  (req_Method (fst q) = ''GET'' \<and> req_Body (fst q) = None) \<or>
                  (req_Method (fst q) = ''PUT'' \<and>
                   req_URL (fst q) =
                     BaseURL target @ ''/v2/'' @ targetRepo @ ''/manifests/'' @ tag \<and>
                   req_Body (fst q) =
                     unread env
                       \<lparr>req_Method = ''PUT'',
                         req_URL = BaseURL target @ ''/v2/'' @ targetRepo @ ''/manifests/'' @ tag,
                         req_Header = [(''Content-Type'', MediaType m)],
                         req_Body = Some (Body resp),
                         req_ContentLength = None, req_BasicAuth = basic_auth target\<rparr> w))))"
proof -
  from GetManifest_Raw[OF assms] obtain before q resp where
    g: "exchanges s1 = exchanges s @ before @ [(q, Inr resp)]"
       "req_Method q = ''GET''"
       "req_URL q = BaseURL source @ ''/v2/'' @ sourceRepo @ ''/manifests/'' @ reference"
       "StatusCode resp = 200" "Body resp = Reader (Raw m) None"
    by blast
  note p = PutManifest_request[of env target targetRepo tag m s2]
  show ?thesis
    using g p by (intro exI[of _ resp]) (simp only: , blast)
qed

text \<open>
  Claim C1 at a failing input. The manifest is fetched from the source with the bytes
  \<open>{}\<close>. The target answers the PUT of the manifest with 401 and a \<open>Bearer\<close>
  challenge, grants a token, and accepts the repeated PUT. \<open>doRequest\<close> builds the
  repeated request from the reader that the first exchange has consumed, so the only
  PUT the registry accepts carries no bytes instead of the bytes fetched, and
  \<open>PutManifest\<close> returns, as a success, the digest of the empty byte sequence.
\<close>

theorem PutManifest_resends_consumed_reader:
  "fst (GetManifest scripted_env source_client ''library/nginx'' ''1.25.0''
          (fresh manifest_reply)) =
     Inr (example_manifest\<lparr>Raw := ''{}'', ContentDigest := ''sha256:cccc''\<rparr>)
   \<and> map (\<lambda>(q, x). (req_Method q, req_URL q, req_Header q, req_Body q, status_of x))
       (exchanges (snd (PutManifest scripted_env target_client ''mirror/nginx'' ''1.25.0''
          (example_manifest\<lparr>Raw := ''{}'', ContentDigest := ''sha256:cccc''\<rparr>)
          (fresh challenge_replies)))) =
     [(''PUT'', ''https://target.example/v2/mirror/nginx/manifests/1.25.0'',
       [(''Content-Type'', ''application/vnd.docker.distribution.manifest.v2+json'')],
       Some (Reader ''{}'' None), Some 401),
      (''GET'', ''https://auth.example/token?service=target.example'', [], None, Some 200),
      (''PUT'', ''https://target.example/v2/mirror/nginx/manifests/1.25.0'',
       [(''Content-Type'', ''application/vnd.docker.distribution.manifest.v2+json''),
        (''Authorization'', ''Bearer t0ken'')],
       Some (Reader [] None), Some 201)]
   \<and> fst (PutManifest scripted_env target_client ''mirror/nginx'' ''1.25.0''
          (example_manifest\<lparr>Raw := ''{}'', ContentDigest := ''sha256:cccc''\<rparr>)
          (fresh challenge_replies)) =
     Inr ''sha256:e3b0c44298fc1c149afbf4c8996fb92427ae41e4649b934ca495991b7852b855''"
  by code_simp

text \<open>
  Claim C9. \<open>PutBlob\<close> makes no exchange exactly when the limiter or the construction
  of the first request fails; otherwise its first exchange is the POST to
  \<open>/v2/{repo}/blobs/uploads/\<close> of the endpoint (with the mount query when the digest
  is not empty), sent through \<open>doRequest\<close>. When that step does not end with a response
  of status 202 that has a \<open>Location\<close>, \<open>PutBlob\<close> stops there with an error. When it
  does, the content is sent with PATCH to that \<open>Location\<close>; when the PATCH is not
  answered 202 with a \<open>Location\<close>, \<open>PutBlob\<close> stops there with an error; when it is,
  the PUT without body and with \<open>Content-Length: 0\<close> is sent to the URL obtained by
  setting the \<open>digest\<close> query on the \<open>Location\<close> of the PATCH's response, and
  \<open>PutBlob\<close> returns nil exactly when that PUT is answered 201. (A request that
  \<open>http.NewRequest\<close> or \<open>url.Parse\<close> refuses also stops the upload with an error.)
  So \<open>PutBlob\<close> returns nil exactly when its exchanges end with the three steps
  answered 202, 202 and 201. A \<open>Location\<close> that does not begin with \<open>http\<close> is prefixed
  with the base URL of the endpoint; any other is used as it is.
\<close>

theorem PutBlob_three_steps:
  "(exchanges (snd (PutBlob env c repository digest content size' s)) = exchanges s \<or>
    (\<exists>x rest. exchanges (snd (PutBlob env c repository digest content size' s)) =
            exchanges s @ (initiate_request c repository digest, x) # rest))
   \<and> (fst (PutBlob env c repository digest content size' s) = None \<longleftrightarrow>
        (\<exists>before q r1 r2 r3 u.
           exchanges (snd (PutBlob env c repository digest content size' s)) =
             exchanges s @ before @
             [(q, Inr r1),
              (patch_request c (resolve_location c (Header r1 ''Location'')) content size', Inr r2),
              (put_request c u, Inr r3)] \<and>
           req_Method q = ''POST'' \<and>
           req_URL q = req_URL (initiate_request c repository digest) \<and>
           StatusCode r1 = 202 \<and> StatusCode r2 = 202 \<and> StatusCode r3 = 201 \<and>
           set_digest_query env (resolve_location c (Header r2 ''Location'')) digest = Inr u))
   \<and> (\<forall>location. resolve_location c location =
         (if HasPrefix location ''http'' then location else BaseURL c @ location))
   \<and> (exchanges (snd (PutBlob env c repository digest content size' s)) = exchanges s \<longleftrightarrow>
        fst (Limiter_Wait env c s) \<noteq> None \<or>
        NewRequest env ''POST'' (req_URL (initiate_request c repository digest)) \<noteq> None)
   \<and> (\<forall>r s1.
        doRequest env c ''POST''
          (''/v2/'' @ repository @ ''/blobs/uploads/'' @
           (if digest \<noteq> '''' then ''?mount='' @ digest @ ''&from='' @ repository else ''''))
          None [] s = (r, s1) \<and>
        (\<forall>r1. r = Inr r1 \<longrightarrow> StatusCode r1 \<noteq> 202 \<or> Header r1 ''Location'' = '''') \<longrightarrow>
        fst (PutBlob env c repository digest content size' s) \<noteq> None \<and>
        snd (PutBlob env c repository digest content size' s) = s1)
   \<and> (\<forall>r1 s1.
        doRequest env c ''POST''
          (''/v2/'' @ repository @ ''/blobs/uploads/'' @
           (if digest \<noteq> '''' then ''?mount='' @ digest @ ''&from='' @ repository else ''''))
          None [] s = (Inr r1, s1) \<and>
        StatusCode r1 = 202 \<and> Header r1 ''Location'' \<noteq> '''' \<and>
        NewRequest env ''PATCH'' (resolve_location c (Header r1 ''Location'')) \<noteq> None \<longrightarrow>
        fst (PutBlob env c repository digest content size' s) \<noteq> None \<and>
        snd (PutBlob env c repository digest content size' s) = s1)
   \<and> (\<forall>r1 s1 x2 s2.
        doRequest env c ''POST''
          (''/v2/'' @ repository @ ''/blobs/uploads/'' @
           (if digest \<noteq> '''' then ''?mount='' @ digest @ ''&from='' @ repository else ''''))
          None [] s = (Inr r1, s1) \<and>
        StatusCode r1 = 202 \<and> Header r1 ''Location'' \<noteq> '''' \<and>
        NewRequest env ''PATCH'' (resolve_location c (Header r1 ''Location'')) = None \<and>
        send env (patch_request c (resolve_location c (Header r1 ''Location'')) content size') s1 =
          (x2, s2) \<longrightarrow>
        (\<exists>rest. exchanges (snd (PutBlob env c repository digest content size' s)) =
            exchanges s1 @
            (patch_request c (resolve_location c (Header r1 ''Location'')) content size', x2) # rest)
        \<and> ((\<forall>r2. x2 = Inr r2 \<longrightarrow> StatusCode r2 \<noteq> 202 \<or> Header r2 ''Location'' = '''') \<longrightarrow>
             fst (PutBlob env c repository digest content size' s) \<noteq> None \<and>
             snd (PutBlob env c repository digest content size' s) = s2)
        \<and> (\<forall>r2. x2 = Inr r2 \<and> StatusCode r2 = 202 \<and> Header r2 ''Location'' \<noteq> '''' \<longrightarrow>
             ((\<forall>u. set_digest_query env (resolve_location c (Header r2 ''Location'')) digest =
                     Inr u \<longrightarrow> NewRequest env ''PUT'' u \<noteq> None) \<longrightarrow>
                fst (PutBlob env c repository digest content size' s) \<noteq> None \<and>
                snd (PutBlob env c repository digest content size' s) = s2) \<and>
             (\<forall>u x3 s3.
                set_digest_query env (resolve_location c (Header r2 ''Location'')) digest = Inr u \<and>
                NewRequest env ''PUT'' u = None \<and>
                send env (put_request c u) s2 = (x3, s3) \<longrightarrow>
                snd (PutBlob env c repository digest content size' s) = s3 \<and>
                exchanges s3 = exchanges s1 @
                  [(patch_request c (resolve_location c (Header r1 ''Location'')) content size',
                    x2),
                   (put_request c u, x3)] \<and>
                (fst (PutBlob env c repository digest content size' s) = None \<longleftrightarrow>
                   status_of x3 = Some 201))))"
proof (intro conjI)
  show "exchanges (snd (PutBlob env c repository digest content size' s)) = exchanges s \<or>
    (\<exists>x rest. exchanges (snd (PutBlob env c repository digest content size' s)) =
            exchanges s @ (initiate_request c repository digest, x) # rest)"
    by (rule PutBlob_first_exchange)
next
  let ?r = "fst (PutBlob env c repository digest content size' s)"
  let ?s = "snd (PutBlob env c repository digest content size' s)"
  let ?shape = "\<exists>before q r1 r2 r3 u.
           exchanges ?s = exchanges s @ before @
             [(q, Inr r1),
              (patch_request c (resolve_location c (Header r1 ''Location'')) content size', Inr r2),
              (put_request c u, Inr r3)] \<and>
           req_Method q = ''POST'' \<and>
           req_URL q = req_URL (initiate_request c repository digest) \<and>
           StatusCode r1 = 202 \<and> StatusCode r2 = 202 \<and> StatusCode r3 = 201 \<and>
           set_digest_query env (resolve_location c (Header r2 ''Location'')) digest = Inr u"
  note aux = PutBlob_steps_aux[OF surjective_pairing[of "PutBlob env c repository digest content size' s"]]
  have "?shape \<Longrightarrow> ?r = None"
  proof -
    assume ?shape
    then obtain before q r1 r2 r3 u where
      e: "exchanges ?s = exchanges s @ before @
             [(q, Inr r1),
              (patch_request c (resolve_location c (Header r1 ''Location'')) content size', Inr r2),
              (put_request c u, Inr r3)]" and st: "StatusCode r3 = 201"
      by blast
    have "exchanges ?s \<noteq> exchanges s" using e by simp
    moreover have "last (exchanges ?s) = (put_request c u, Inr r3)" using e by simp
    then have "req_Method (fst (last (exchanges ?s))) = ''PUT''"
        "status_of (snd (last (exchanges ?s))) = Some 201"
      using st by (simp_all add: put_request_def status_of_def)
    ultimately show "?r = None" using aux by auto
  qed
  moreover have "?r = None \<Longrightarrow> ?shape" using aux by blast
  ultimately show "?r = None \<longleftrightarrow> ?shape" by blast
next
  show "\<forall>location. resolve_location c location =
         (if HasPrefix location ''http'' then location else BaseURL c @ location)"
    by (simp add: resolve_location_def)
next
  show "exchanges (snd (PutBlob env c repository digest content size' s)) = exchanges s \<longleftrightarrow>
        fst (Limiter_Wait env c s) \<noteq> None \<or>
        NewRequest env ''POST'' (req_URL (initiate_request c repository digest)) \<noteq> None"
    by (rule PutBlob_no_exchange)
next
  show "\<forall>r s1.
        doRequest env c ''POST''
          (''/v2/'' @ repository @ ''/blobs/uploads/'' @
           (if digest \<noteq> '''' then ''?mount='' @ digest @ ''&from='' @ repository else ''''))
          None [] s = (r, s1) \<and>
        (\<forall>r1. r = Inr r1 \<longrightarrow> StatusCode r1 \<noteq> 202 \<or> Header r1 ''Location'' = '''') \<longrightarrow>
        fst (PutBlob env c repository digest content size' s) \<noteq> None \<and>
        snd (PutBlob env c repository digest content size' s) = s1"
    using PutBlob_stops_after_POST[of env c repository digest s _ _ content size']
    by (intro allI impI) (elim conjE, assumption)
next
  show "\<forall>r1 s1.
        doRequest env c ''POST''
          (''/v2/'' @ repository @ ''/blobs/uploads/'' @
           (if digest \<noteq> '''' then ''?mount='' @ digest @ ''&from='' @ repository else ''''))
          None [] s = (Inr r1, s1) \<and>
        StatusCode r1 = 202 \<and> Header r1 ''Location'' \<noteq> '''' \<and>
        NewRequest env ''PATCH'' (resolve_location c (Header r1 ''Location'')) \<noteq> None \<longrightarrow>
        fst (PutBlob env c repository digest content size' s) \<noteq> None \<and>
        snd (PutBlob env c repository digest content size' s) = s1"
    using PutBlob_stops_before_PATCH[of env c repository digest s _ _ content size']
    by (intro allI impI) (elim conjE, assumption)
next
  show "\<forall>r1 s1 x2 s2.
        doRequest env c ''POST''
          (''/v2/'' @ repository @ ''/blobs/uploads/'' @
           (if digest \<noteq> '''' then ''?mount='' @ digest @ ''&from='' @ repository else ''''))
          None [] s = (Inr r1, s1) \<and>
        StatusCode r1 = 202 \<and> Header r1 ''Location'' \<noteq> '''' \<and>
        NewRequest env ''PATCH'' (resolve_location c (Header r1 ''Location'')) = None \<and>
        send env (patch_request c (resolve_location c (Header r1 ''Location'')) content size') s1 =
          (x2, s2) \<longrightarrow>
        (\<exists>rest. exchanges (snd (PutBlob env c repository digest content size' s)) =
            exchanges s1 @
            (patch_request c (resolve_location c (Header r1 ''Location'')) content size', x2) # rest)
        \<and> ((\<forall>r2. x2 = Inr r2 \<longrightarrow> StatusCode r2 \<noteq> 202 \<or> Header r2 ''Location'' = '''') \<longrightarrow>
             fst (PutBlob env c repository digest content size' s) \<noteq> None \<and>
             snd (PutBlob env c repository digest content size' s) = s2)
        \<and> (\<forall>r2. x2 = Inr r2 \<and> StatusCode r2 = 202 \<and> Header r2 ''Location'' \<noteq> '''' \<longrightarrow>
             ((\<forall>u. set_digest_query env (resolve_location c (Header r2 ''Location'')) digest =
                     Inr u \<longrightarrow> NewRequest env ''PUT'' u \<noteq> None) \<longrightarrow>
                fst (PutBlob env c repository digest content size' s) \<noteq> None \<and>
                snd (PutBlob env c repository digest content size' s) = s2) \<and>
             (\<forall>u x3 s3.
                set_digest_query env (resolve_location c (Header r2 ''Location'')) digest = Inr u \<and>
                NewRequest env ''PUT'' u = None \<and>
                send env (put_request c u) s2 = (x3, s3) \<longrightarrow>
                snd (PutBlob env c repository digest content size' s) = s3 \<and>
                exchanges s3 = exchanges s1 @
                  [(patch_request c (resolve_location c (Header r1 ''Location'')) content size',
                    x2),
                   (put_request c u, x3)] \<and>
                (fst (PutBlob env c repository digest content size' s) = None \<longleftrightarrow>
                   status_of x3 = Some 201)))"
  proof (intro allI impI)
    fix r1 s1 x2 s2
    assume h: "doRequest env c ''POST''
          (''/v2/'' @ repository @ ''/blobs/uploads/'' @
           (if digest \<noteq> '''' then ''?mount='' @ digest @ ''&from='' @ repository else ''''))
          None [] s = (Inr r1, s1) \<and>
        StatusCode r1 = 202 \<and> Header r1 ''Location'' \<noteq> '''' \<and>
        NewRequest env ''PATCH'' (resolve_location c (Header r1 ''Location'')) = None \<and>
        send env (patch_request c (resolve_location c (Header r1 ''Location'')) content size') s1 =
          (x2, s2)"
    show "(\<exists>rest. exchanges (snd (PutBlob env c repository digest content size' s)) =
            exchanges s1 @
            (patch_request c (resolve_location c (Header r1 ''Location'')) content size', x2) # rest)
        \<and> ((\<forall>r2. x2 = Inr r2 \<longrightarrow> StatusCode r2 \<noteq> 202 \<or> Header r2 ''Location'' = '''') \<longrightarrow>
             fst (PutBlob env c repository digest content size' s) \<noteq> None \<and>
             snd (PutBlob env c repository digest content size' s) = s2)
        \<and> (\<forall>r2. x2 = Inr r2 \<and> StatusCode r2 = 202 \<and> Header r2 ''Location'' \<noteq> '''' \<longrightarrow>
             ((\<forall>u. set_digest_query env (resolve_location c (Header r2 ''Location'')) digest =
                     Inr u \<longrightarrow> NewRequest env ''PUT'' u \<noteq> None) \<longrightarrow>
                fst (PutBlob env c repository digest content size' s) \<noteq> None \<and>
                snd (PutBlob env c repository digest content size' s) = s2) \<and>
             (\<forall>u x3 s3.
                set_digest_query env (resolve_location c (Header r2 ''Location'')) digest = Inr u \<and>
                NewRequest env ''PUT'' u = None \<and>
                send env (put_request c u) s2 = (x3, s3) \<longrightarrow>
                snd (PutBlob env c repository digest content size' s) = s3 \<and>
                exchanges s3 = exchanges s1 @
                  [(patch_request c (resolve_location c (Header r1 ''Location'')) content size',
                    x2),
                   (put_request c u, x3)] \<and>
                (fst (PutBlob env c repository digest content size' s) = None \<longleftrightarrow>
                   status_of x3 = Some 201)))"
      by (rule PutBlob_PATCH_and_PUT[OF h[THEN conjunct1] h[THEN conjunct2, THEN conjunct1]
            h[THEN conjunct2, THEN conjunct2, THEN conjunct1]
            h[THEN conjunct2, THEN conjunct2, THEN conjunct2, THEN conjunct1]
            h[THEN conjunct2, THEN conjunct2, THEN conjunct2, THEN conjunct2]])
  qed
qed

theorem PutBlob_three_steps_witness:
  "fst (PutBlob scripted_env target_client ''mirror/nginx'' ''sha256:abc'' (Reader ''data'' None) 4
     (fresh upload_replies)) = None
   \<and> (\<exists>before q r1 r2 r3 u.
        exchanges (snd (PutBlob scripted_env target_client ''mirror/nginx'' ''sha256:abc''
          (Reader ''data'' None) 4 (fresh upload_replies))) =
        exchanges (fresh upload_replies) @ before @
          [(q, Inr r1),
           (patch_request target_client
              (resolve_location target_client (Header r1 ''Location'')) (Reader ''data'' None) 4,
            Inr r2),
           (put_request target_client u, Inr r3)] \<and>
        req_Method q = ''POST'' \<and>
        req_URL q = req_URL (initiate_request target_client ''mirror/nginx'' ''sha256:abc'') \<and>
        StatusCode r1 = 202 \<and> StatusCode r2 = 202 \<and> StatusCode r3 = 201 \<and>
        set_digest_query scripted_env
          (resolve_location target_client (Header r2 ''Location'')) ''sha256:abc'' = Inr u)
   \<and> map (\<lambda>(q, x). (req_Method q, req_URL q, req_Body q, status_of x))
        (exchanges (snd (PutBlob scripted_env target_client ''mirror/nginx'' ''sha256:abc''
          (Reader ''data'' None) 4 (fresh upload_replies)))) =
      [(''POST'',
        ''https://target.example/v2/mirror/nginx/blobs/uploads/?mount=sha256:abc&from=mirror/nginx'',
        None, Some 202),
       (''PATCH'', ''https://target.example/v2/mirror/nginx/blobs/uploads/u1'',
        Some (Reader ''data'' None), Some 202),
       (''PUT'', ''http://upload.example/u2?digest=sha256%3Aabc'', None, Some 201)]
   \<and> fst (PutBlob scripted_env target_client ''mirror/nginx'' ''sha256:abc''
          (Reader ''data'' None) 4 (fresh [Inr (response 500 [] '''')])) \<noteq> None
   \<and> map (\<lambda>(q, x). (req_Method q, status_of x))
        (exchanges (snd (PutBlob scripted_env target_client ''mirror/nginx'' ''sha256:abc''
          (Reader ''data'' None) 4 (fresh [Inr (response 500 [] '''')])))) =
      [(''POST'', Some 500)]
   \<and> fst (PutBlob scripted_env target_client ''mirror/nginx'' ''sha256:abc''
          (Reader ''data'' None) 4
          (fresh [Inr (response 202 [(''Location'', ''/v2/mirror/nginx/blobs/uploads/u1'')] ''''),
                  Inr (response 500 [] '''')])) \<noteq> None
   \<and> map (\<lambda>(q, x). (req_Method q, status_of x))
        (exchanges (snd (PutBlob scripted_env target_client ''mirror/nginx'' ''sha256:abc''
          (Reader ''data'' None) 4
          (fresh [Inr (response 202 [(''Location'', ''/v2/mirror/nginx/blobs/uploads/u1'')] ''''),
                  Inr (response 500 [] '''')])))) =
      [(''POST'', Some 202), (''PATCH'', Some 500)]"
proof -
  let ?run = "PutBlob scripted_env target_client ''mirror/nginx'' ''sha256:abc''
     (Reader ''data'' None) 4 (fresh upload_replies)"
  have ok: "fst ?run = None"
    by code_simp
  have steps: "map (\<lambda>(q, x). (req_Method q, req_URL q, req_Body q, status_of x))
        (exchanges (snd ?run)) =
      [(''POST'',
        ''https://target.example/v2/mirror/nginx/blobs/uploads/?mount=sha256:abc&from=mirror/nginx'',
        None, Some 202),
       (''PATCH'', ''https://target.example/v2/mirror/nginx/blobs/uploads/u1'',
        Some (Reader ''data'' None), Some 202),
       (''PUT'', ''http://upload.example/u2?digest=sha256%3Aabc'', None, Some 201)]"
    by code_simp
  have stop1: "fst (PutBlob scripted_env target_client ''mirror/nginx'' ''sha256:abc''
          (Reader ''data'' None) 4 (fresh [Inr (response 500 [] '''')])) \<noteq> None"
    by code_simp
  have trace1: "map (\<lambda>(q, x). (req_Method q, status_of x))
        (exchanges (snd (PutBlob scripted_env target_client ''mirror/nginx'' ''sha256:abc''
          (Reader ''data'' None) 4 (fresh [Inr (response 500 [] '''')])))) =
      [(''POST'', Some 500)]"
    by code_simp
  have stop2: "fst (PutBlob scripted_env target_client ''mirror/nginx'' ''sha256:abc''
          (Reader ''data'' None) 4
          (fresh [Inr (response 202 [(''Location'', ''/v2/mirror/nginx/blobs/uploads/u1'')] ''''),
                  Inr (response 500 [] '''')])) \<noteq> None"
    by code_simp
  have trace2: "map (\<lambda>(q, x). (req_Method q, status_of x))
        (exchanges (snd (PutBlob scripted_env target_client ''mirror/nginx'' ''sha256:abc''
          (Reader ''data'' None) 4
          (fresh [Inr (response 202 [(''Location'', ''/v2/mirror/nginx/blobs/uploads/u1'')] ''''),
                  Inr (response 500 [] '''')])))) =
      [(''POST'', Some 202), (''PATCH'', Some 500)]"
    by code_simp
  note T = PutBlob_three_steps[of scripted_env target_client "''mirror/nginx''" "''sha256:abc''"
      "Reader ''data'' None" 4 "fresh upload_replies"]
  note ex = iffD1[OF conjunct1[OF conjunct2[OF T]] ok]
  show ?thesis
    by (intro conjI) (rule ok, rule ex, rule steps, rule stop1, rule trace1, rule stop2,
        rule trace2)
qed


section \<open>Properties of retry classification and of blob sync tasks\<close>

lemma isRetryableError_context:
  "is_Canceled e \<or> is_DeadlineExceeded e \<Longrightarrow> isRetryableError (Some e) = False"
  by (auto simp: isRetryableError_def)

lemma isRetryableError_unexpected_status_retry:
  "isRetryableError (Some (unexpected_status 429))"
  "isRetryableError (Some (unexpected_status 500))"
  "isRetryableError (Some (unexpected_status 502))"
  "isRetryableError (Some (unexpected_status 503))"
  "isRetryableError (Some (unexpected_status 504))"
  by code_simp+

lemma isRetryableError_unexpected_status_no_retry:
  "isRetryableError (Some (unexpected_status 400)) = False"
  "isRetryableError (Some (unexpected_status 401)) = False"
  "isRetryableError (Some (unexpected_status 403)) = False"
  "isRetryableError (Some (unexpected_status 404)) = False"
  by code_simp+

lemma isRetryableError_status_code:
  assumes "\<not> is_Canceled e" "\<not> is_DeadlineExceeded e" "as_net_Error e = None"
    and "as_DNSError e = None"
    and "Contains (ToLower (msg e)) ''status code''"
    and "Contains (ToLower (msg e)) ''429'' \<or> Contains (ToLower (msg e)) ''500'' \<or>
         Contains (ToLower (msg e)) ''502'' \<or> Contains (ToLower (msg e)) ''503'' \<or>
         Contains (ToLower (msg e)) ''504''"
  shows "isRetryableError (Some e)"
  using assms by (auto simp: isRetryableError_def Let_def)

lemma isRetryableError_fail_closed:
  assumes "as_net_Error e = None" "as_DNSError e = None"
    and "\<not> is_ECONNREFUSED e" "\<not> is_ECONNRESET e" "\<not> is_ETIMEDOUT e"
    and "\<not> matches_pattern (ToLower (msg e)) retryablePatterns"
    and "\<not> Contains (ToLower (msg e)) ''status code''"
  shows "isRetryableError (Some e) = False"
  using assms by (auto simp: isRetryableError_def Let_def)

text \<open>
  Claim C4 at a failing input. The source answers the GET of a blob with 503. The
  error that \<open>CopyBlob\<close> returns carries that status, but its message has no
  \<open>status code\<close> in it and matches no pattern, so \<open>isRetryableError\<close> is false: the task
  makes one attempt (one GET) and fails with a non-retryable error.
\<close>

theorem GetBlob_503_is_not_retried:
  "fst (CopyBlob scripted_env source_client target_client ''library/nginx'' ''mirror/nginx''
          ''sha256:abcdefg'' 1024 (fresh (tl unavailable_replies))) =
     Some (plain_error ''failed to download blob: failed to get blob: 503 '')
   \<and> isRetryableError
        (Some (plain_error ''failed to download blob: failed to get blob: 503 '')) = False
   \<and> fst (Execute scripted_env (example_task ''sha256:abcdefg'') (fresh unavailable_replies)) =
     Returned (Some (plain_error
       ''failed to copy blob sha256:abcde: non-retryable error: failed to download blob: failed to get blob: 503 ''))
   \<and> map (\<lambda>x. (req_Method (fst x), status_of (snd x)))
        (exchanges (snd (Execute scripted_env (example_task ''sha256:abcdefg'')
           (fresh unavailable_replies)))) =
     [(''HEAD'', Some 404), (''HEAD'', Some 404), (''POST'', Some 202), (''GET'', Some 503)]"
  by code_simp

lemma Description_short_digest:
  "length (Digest t) < 12 \<Longrightarrow> Description t = Panic ''slice bounds out of range''"
  by (simp add: Description_def slice_to_def)

lemma Execute_short_digest:
  assumes "length (Digest t) < 12"
    and "BlobExists env (Target t) (TargetRepo t) (Digest t) s = (Inr (found, n), s1)"
  shows "Execute env t s = (Panic ''slice bounds out of range'', s1)"
  using assms by (simp add: Execute_def slice_to_def)

lemma Execute_long_digest:
  assumes "12 \<le> length (Digest t)"
  shows "\<exists>r. fst (Execute env t s) = Returned r"
  using assms
  by (auto simp: Execute_def slice_to_def split: prod.splits sum.splits option.splits)

text \<open>
  Claim C10 at a failing input. A task whose digest has fewer than twelve characters
  panics in \<open>Description\<close>, and in \<open>Execute\<close> as soon as the existence check on the target
  has answered, here with 200.
\<close>

theorem BlobSyncTask_short_digest_panics:
  "Description (example_task ''sha256:abc'') = Panic ''slice bounds out of range''
   \<and> fst (Execute scripted_env (example_task ''sha256:abc'') (fresh exists_reply)) =
       Panic ''slice bounds out of range''"
  by code_simp

subsection \<open>The engine pushes a manifest only after all its blobs\<close>

lemma run_workers_errors_grow:
  "fst (run_workers env ts errors s) = Returned errors' \<Longrightarrow> length errors \<le> length errors'"
proof (induction ts arbitrary: errors s)
  case Nil
  then show ?case by simp
next
  case (Cons t ts)
  obtain r s1 where e: "Execute env t s = (r, s1)" by (cases "Execute env t s")
  show ?case
  proof (cases r)
    case (Panic p)
    then show ?thesis using Cons.prems e by simp
  next
    case (Returned res)
    show ?thesis
    proof (cases res)
      case None
      then show ?thesis using Cons e Returned by simp
    next
      case (Some err)
      show ?thesis
      proof (cases "Description t")
        case (Panic p)
        then show ?thesis using Cons.prems e Returned Some by simp
      next
        case desc: (Returned d)
        have "length (errors @ [wrap_error (''worker 0: task '' @ d @ '' failed: '') err])
              \<le> length errors'"
          using Cons.prems e Returned Some desc by (intro Cons.IH[of _ s1]) simp
        then show ?thesis by simp
      qed
    qed
  qed
qed

lemma run_workers_no_error:
  assumes "fst (run_workers env (t # rest) [] s) = Returned []"
  shows "fst (Execute env t s) = Returned None \<and>
         fst (run_workers env rest [] (snd (Execute env t s))) = Returned []"
proof -
  obtain r s1 where e: "Execute env t s = (r, s1)" by (cases "Execute env t s")
  show ?thesis
  proof (cases r)
    case (Panic p)
    then show ?thesis using assms e by simp
  next
    case (Returned res)
    show ?thesis
    proof (cases res)
      case None
      then show ?thesis using assms e Returned by simp
    next
      case (Some err)
      show ?thesis
      proof (cases "Description t")
        case (Panic p)
        then show ?thesis using assms e Returned Some by simp
      next
        case desc: (Returned d)
        have "fst (run_workers env rest
                 [wrap_error (''worker 0: task '' @ d @ '' failed: '') err] s1) = Returned []"
          using assms e Returned Some desc by simp
        from run_workers_errors_grow[OF this] show ?thesis by simp
      qed
    qed
  qed
qed

lemma SyncSingleManifest_gate:
  assumes "fst (SyncSingleManifest env retryConfig source target rule reference manifest s) =
             Returned None"
  shows "\<exists>s1 x. run_workers env
              (map (\<lambda>blob.
                 \<lparr>Source = source, Target = target,
                  SourceRepo = rule_SourceRepository rule,
                  TargetRepo = rule_TargetRepository rule,
                  Digest = desc_Digest blob, Size = desc_Size blob, RetryConfig = retryConfig,
                  OnProgress = None\<rparr>) (GetAllBlobs manifest)) [] s = (Returned [], s1) \<and>
            PutManifest env target (rule_TargetRepository rule) reference manifest s1 =
              (Inr x, snd (SyncSingleManifest env retryConfig source target rule reference
                             manifest s))"
  using assms
  by (auto simp: SyncSingleManifest_def Let_def Wait_def
      split: prod.splits outcome.splits option.splits sum.splits if_splits)

lemma engine_stops_before_manifest_after_failed_blob:
  "map (\<lambda>x. (req_Method (fst x), req_URL (fst x), status_of (snd x)))
     (exchanges (snd (SyncSingleManifest scripted_env DefaultRetryConfig source_client
        target_client example_rule ''1.25.0'' example_manifest
        (fresh (drop 2 failed_blob_replies))))) =
   [(''HEAD'', ''https://target.example/v2/mirror/nginx/blobs/sha256:aaaaaaaa'', Some 500),
    (''HEAD'', ''https://target.example/v2/mirror/nginx/blobs/sha256:bbbbbbbb'', Some 200)]"
  by code_simp

section \<open>Properties of the scheduler\<close>

subsection \<open>The blob total of the analysis phase\<close>











subsection \<open>The order of blobs and manifest in the synchronisation phase\<close>

text \<open>
  Claim C2 at a failing input, on the scheduler path. The existence check of the
  config blob fails with status 500, so the blob is counted as failed and never
  copied; the layer is found on the target; the manifest that refers to both is
  pushed all the same, and the target accepts it.
\<close>

theorem runTask_pushes_manifest_after_failed_blob:
  "fst (analyse_and_synchronise scripted_env source_client target_client example_sync_task
          [''nginx''] (start_run failed_blob_replies)) = Returned None
   \<and> FailedBlobs (execution (snd (analyse_and_synchronise scripted_env source_client
          target_client example_sync_task [''nginx''] (start_run failed_blob_replies)))) = 1
   \<and> map (\<lambda>x. (req_Method (fst x), req_URL (fst x), status_of (snd x)))
        (exchanges (conn (snd (analyse_and_synchronise scripted_env source_client
          target_client example_sync_task [''nginx''] (start_run failed_blob_replies))))) =
      [(''GET'', ''https://source.example/v2/library/nginx/tags/list'', Some 200),
       (''GET'', ''https://source.example/v2/library/nginx/manifests/1.25.0'', Some 200),
       (''HEAD'', ''https://target.example/v2/mirror/nginx/blobs/sha256:aaaaaaaa'', Some 500),
       (''HEAD'', ''https://target.example/v2/mirror/nginx/blobs/sha256:bbbbbbbb'', Some 200),
       (''PUT'', ''https://target.example/v2/mirror/nginx/manifests/1.25.0'', Some 201)]"
  by code_simp

subsection \<open>Terminal status and conflicts\<close>

lemma executions_notify_channels:
  "executions (notify_channels task status ids s) = executions s"
  by (induction ids arbitrary: s) (auto split: option.splits)

lemma executions_sendNotification:
  "executions (sendNotification U task status s) = executions s"
  by (auto simp: sendNotification_def executions_notify_channels split: sum.splits)

lemma executions_goroutine_exit:
  "\<exists>f. executions (goroutine_exit U s eid result now) = map f (executions s) \<and>
       (\<forall>row. f row = row \<or> Status (f row) = StatusFailed \<or> Status (f row) = StatusSuccess)"
proof (cases "find (\<lambda>g. ID (g_execution g) = eid) (goroutines s)")
  case None
  then have "executions (goroutine_exit U s eid result now) = map (\<lambda>row. row) (executions s)"
    by (simp add: goroutine_exit_def)
  then show ?thesis by blast
next
  case (Some g)
  define finished where "finished =
     (case result of
        Some err \<Rightarrow> (g_execution g)\<lparr>Status := StatusFailed, EndTime := Some now,
                                      ErrorMessage := msg err\<rparr>
      | None \<Rightarrow> (g_execution g)\<lparr>Status := StatusSuccess, EndTime := Some now\<rparr>)"
  have st: "Status finished = StatusFailed \<or> Status finished = StatusSuccess"
    by (cases result) (simp_all add: finished_def)
  have "executions (goroutine_exit U s eid result now) =
        map (\<lambda>row. if ID row = ID finished then finished else row) (executions s)"
    using Some
    by (simp add: goroutine_exit_def Let_def finished_def[symmetric] save_execution_def
        executions_sendNotification)
  then show ?thesis using st by (intro exI[of _ "\<lambda>row. if ID row = ID finished then finished else row"]) auto
qed

lemma step_never_canceled:
  assumes "\<forall>e \<in> set (executions s). Status e \<noteq> StatusCanceled"
  shows "\<forall>e \<in> set (executions (snd (step U ev s))). Status e \<noteq> StatusCanceled"
proof (cases ev)
  case (Call_ExecuteTask taskID now)
  then show ?thesis using assms
    by (auto simp: ExecuteTask_def Let_def new_execution_def split: option.splits)
next
  case (Call_CancelTask taskID)
  then show ?thesis using assms by (auto simp: CancelTask_def split: option.splits)
next
  case (Goroutine_exits eid result now)
  obtain f where f: "executions (goroutine_exit U s eid result now) = map f (executions s)"
    "\<forall>row. f row = row \<or> Status (f row) = StatusFailed \<or> Status (f row) = StatusSuccess"
    using executions_goroutine_exit by blast
  have "Status (f row) \<noteq> StatusCanceled" if "row \<in> set (executions s)" for row
    using f(2)[rule_format, of row] assms that by auto
  then show ?thesis using Goroutine_exits f(1) by auto
qed

lemma run_events_never_canceled:
  assumes "\<forall>e \<in> set (executions s). Status e \<noteq> StatusCanceled"
  shows "\<forall>e \<in> set (executions (snd (run_events U evs s))). Status e \<noteq> StatusCanceled"
  using assms
proof (induction evs arbitrary: s)
  case Nil
  then show ?case by simp
next
  case (Cons ev evs)
  obtain r s1 where st: "step U ev s = (r, s1)" by (cases "step U ev s")
  have "\<forall>e \<in> set (executions s1). Status e \<noteq> StatusCanceled"
    using step_never_canceled[OF Cons.prems, of U ev] st by simp
  from Cons.IH[OF this] show ?case using st by (simp split: prod.splits)
qed

text \<open>
  Claim C7 at a failing input. A task is started, cancelled while it runs, and its
  \<open>runTask\<close> returns the error of the cancelled context: the execution is recorded as
  failed and the failure notification goes to the channel. When \<open>runTask\<close> returns nil
  after the cancellation, the execution is recorded as success.
\<close>

theorem cancelled_task_is_recorded_failed:
  "map Status (executions (snd (run_events example_ids
      [Call_ExecuteTask 1 100, Call_CancelTask 1, Goroutine_exits 1 (Some cancelled_run_error) 200]
      example_scheduler))) = [StatusFailed]
   \<and> notifications (snd (run_events example_ids
      [Call_ExecuteTask 1 100, Call_CancelTask 1, Goroutine_exits 1 (Some cancelled_run_error) 200]
      example_scheduler)) = [(''ops'', ''nginx'', ''failed'')]
   \<and> map Status (executions (snd (run_events example_ids
      [Call_ExecuteTask 1 100, Call_CancelTask 1, Goroutine_exits 1 None 200]
      example_scheduler))) = [StatusSuccess]"
  by code_simp

lemma ExecuteTask_conflict:
  assumes "running s taskID = Some cancel"
  shows "ExecuteTask s taskID now =
     (Some (plain_error (''task '' @ itoa (int taskID) @ '' is already running'')), s)"
  using assms by (simp add: ExecuteTask_def)

subsection \<open>At most one running execution while nothing is cancelled\<close>

lemma notify_channels_frame:
  "executions (notify_channels task status ids s) = executions s"
  "goroutines (notify_channels task status ids s) = goroutines s"
  "running (notify_channels task status ids s) = running s"
  "tasks (notify_channels task status ids s) = tasks s"
  by (induction ids arbitrary: s) (auto split: option.splits)

lemma sendNotification_frame:
  "executions (sendNotification U task status s) = executions s"
  "goroutines (sendNotification U task status s) = goroutines s"
  "running (sendNotification U task status s) = running s"
  "tasks (sendNotification U task status s) = tasks s"
  by (auto simp: sendNotification_def notify_channels_frame split: sum.splits)

lemma invariant_bounds_running:
  assumes "in_flight_invariant s"
  shows "length (running_executions s taskID) \<le> 1"
proof -
  let ?rs = "running_executions s taskID"
  have ids: "distinct (map ID (executions s))"
    using assms by (simp add: in_flight_invariant_def)
  then have d: "distinct (map ID ?rs)"
    unfolding running_executions_def by (rule distinct_map_filter)
  have same: "ID x = ID y" if "x \<in> set ?rs" "y \<in> set ?rs" for x y
  proof -
    from that have x: "x \<in> set (executions s)" "Status x = StatusRunning" "TaskID x = taskID"
      and y: "y \<in> set (executions s)" "Status y = StatusRunning" "TaskID y = taskID"
      by (auto simp: running_executions_def)
    obtain g where g: "g \<in> set (goroutines s)" "ID (g_execution g) = ID x" "g_taskID g = taskID"
      using assms x by (auto simp: in_flight_invariant_def)
    obtain h where h: "h \<in> set (goroutines s)" "ID (g_execution h) = ID y" "g_taskID h = taskID"
      using assms y by (auto simp: in_flight_invariant_def)
    have "distinct (map g_taskID (goroutines s))"
      using assms by (simp add: in_flight_invariant_def)
    then have "inj_on g_taskID (set (goroutines s))" by (simp add: distinct_map)
    then have "g = h" using g h by (auto dest: inj_onD)
    then show ?thesis using g h by simp
  qed
  show ?thesis
  proof (cases ?rs)
    case Nil
    then show ?thesis by simp
  next
    case (Cons x xs)
    show ?thesis
    proof (cases xs)
      case Nil
      then show ?thesis using Cons by simp
    next
      case (Cons y ys)
      then have "ID x = ID y" using same[of x y] \<open>?rs = x # xs\<close> by simp
      then show ?thesis using d \<open>?rs = x # xs\<close> Cons by simp
    qed
  qed
qed

lemma ExecuteTask_invariant:
  assumes "in_flight_invariant s"
  shows "in_flight_invariant (snd (ExecuteTask s taskID now))"
proof (cases "running s taskID \<noteq> None \<or> tasks s taskID = None")
  case True
  then show ?thesis using assms by (auto simp: ExecuteTask_def)
next
  case False
  then obtain task where t: "running s taskID = None" "tasks s taskID = Some task" by auto
  then have tid: "task_ID task = taskID" using assms by (simp add: in_flight_invariant_def)
  define created where "created = new_execution (Suc (length (executions s))) (task_ID task) now"
  define g where "g = \<lparr>g_taskID = taskID, g_task = task, g_execution = created, g_ctx = ID created\<rparr>"
  define s' where "s' = s\<lparr>executions := executions s @ [created],
                         running := (running s)(taskID \<mapsto> ID created),
                         goroutines := goroutines s @ [g]\<rparr>"
  have eq: "snd (ExecuteTask s taskID now) = s'"
    using t by (simp add: ExecuteTask_def Let_def created_def g_def s'_def)
  have c: "ID created = Suc (length (executions s))" "TaskID created = taskID"
    "Status created = StatusRunning"
    by (simp_all add: created_def new_execution_def tid)
  have fresh_task: "taskID \<notin> g_taskID ` set (goroutines s)"
    using assms t(1) by (auto simp: in_flight_invariant_def)
  have "in_flight_invariant s'"
    unfolding in_flight_invariant_def
  proof (intro conjI)
    show "\<forall>i t. tasks s' i = Some t \<longrightarrow> task_ID t = i"
      using assms by (simp add: s'_def in_flight_invariant_def)
    show "map ID (executions s') = [1..<Suc (length (executions s'))]"
      using assms c by (simp add: s'_def in_flight_invariant_def)
    show "\<forall>e\<in>set (executions s'). Status e = StatusRunning \<longrightarrow>
           (\<exists>g\<in>set (goroutines s'). ID (g_execution g) = ID e \<and> g_taskID g = TaskID e)"
      using assms c by (auto simp: s'_def in_flight_invariant_def g_def)
    show "\<forall>g\<in>set (goroutines s'). running s' (g_taskID g) \<noteq> None"
      using assms by (auto simp: s'_def in_flight_invariant_def g_def)
    show "distinct (map g_taskID (goroutines s'))"
      using assms fresh_task by (auto simp: s'_def in_flight_invariant_def g_def)
  qed
  then show ?thesis using eq by simp
qed


lemma find_goroutine:
  "find P gs = Some g \<Longrightarrow> g \<in> set gs \<and> P g"
  by (induction gs) (auto split: if_splits)

lemma goroutine_exit_invariant:
  assumes "in_flight_invariant s"
  shows "in_flight_invariant (goroutine_exit U s eid result now)"
proof (cases "find (\<lambda>g. ID (g_execution g) = eid) (goroutines s)")
  case None
  then show ?thesis using assms by (simp add: goroutine_exit_def)
next
  case (Some g)
  then have g: "g \<in> set (goroutines s)" "ID (g_execution g) = eid"
    using find_goroutine[OF Some] by auto
  define finished where "finished =
     (case result of
        Some err \<Rightarrow> (g_execution g)\<lparr>Status := StatusFailed, EndTime := Some now,
                                      ErrorMessage := msg err\<rparr>
      | None \<Rightarrow> (g_execution g)\<lparr>Status := StatusSuccess, EndTime := Some now\<rparr>)"
  have fin: "Status finished \<noteq> StatusRunning" "ID finished = eid"
    using g(2) by (cases result; simp add: finished_def)+
  let ?s' = "goroutine_exit U s eid result now"
  have ex: "executions ?s' = map (\<lambda>row. if ID row = eid then finished else row) (executions s)"
    using Some fin(2)
    by (simp add: goroutine_exit_def Let_def finished_def[symmetric] save_execution_def
        sendNotification_frame)
  have go: "goroutines ?s' = filter (\<lambda>h. ID (g_execution h) \<noteq> eid) (goroutines s)"
    using Some
    by (simp add: goroutine_exit_def Let_def finished_def[symmetric] save_execution_def
        sendNotification_frame)
  have ru: "running ?s' = (running s)(g_taskID g := None)"
    using Some
    by (simp add: goroutine_exit_def Let_def finished_def[symmetric] save_execution_def
        sendNotification_frame)
  have ta: "tasks ?s' = tasks s"
    using Some
    by (simp add: goroutine_exit_def Let_def finished_def[symmetric] save_execution_def
        sendNotification_frame)
  have inj: "inj_on g_taskID (set (goroutines s))"
    using assms by (simp add: in_flight_invariant_def distinct_map)
  show ?thesis
    unfolding in_flight_invariant_def
  proof (intro conjI)
    show "\<forall>i t. tasks ?s' i = Some t \<longrightarrow> task_ID t = i"
      using assms by (simp add: ta in_flight_invariant_def)
    have mid: "map ID (executions ?s') = map ID (executions s)"
      unfolding ex using fin(2) by (induction "executions s") auto
    have len: "length (executions ?s') = length (executions s)"
      by (simp add: ex)
    have "map ID (executions s) = [1..<Suc (length (executions s))]"
      using assms unfolding in_flight_invariant_def by blast
    then show "map ID (executions ?s') = [1..<Suc (length (executions ?s'))]"
      unfolding mid len .
    show "\<forall>e\<in>set (executions ?s'). Status e = StatusRunning \<longrightarrow>
           (\<exists>g\<in>set (goroutines ?s'). ID (g_execution g) = ID e \<and> g_taskID g = TaskID e)"
    proof (intro ballI impI)
      fix e assume e: "e \<in> set (executions ?s')" "Status e = StatusRunning"
      then obtain row where row: "row \<in> set (executions s)"
          "e = (if ID row = eid then finished else row)"
        unfolding ex by auto
      then have "ID row \<noteq> eid" "e = row" using e(2) fin(1) by (auto split: if_splits)
      then obtain h where "h \<in> set (goroutines s)" "ID (g_execution h) = ID e"
          "g_taskID h = TaskID e"
        using assms row(1) e(2) by (auto simp: in_flight_invariant_def)
      then show "\<exists>g\<in>set (goroutines ?s'). ID (g_execution g) = ID e \<and> g_taskID g = TaskID e"
        using \<open>ID row \<noteq> eid\<close> \<open>e = row\<close> unfolding go by auto
    qed
    show "\<forall>h\<in>set (goroutines ?s'). running ?s' (g_taskID h) \<noteq> None"
    proof
      fix h assume "h \<in> set (goroutines ?s')"
      then have h: "h \<in> set (goroutines s)" "ID (g_execution h) \<noteq> eid"
        unfolding go by auto
      then have "h \<noteq> g" using g(2) by auto
      then have "g_taskID h \<noteq> g_taskID g" using inj h(1) g(1) by (auto dest: inj_onD)
      moreover have "running s (g_taskID h) \<noteq> None"
        using assms h(1) by (simp add: in_flight_invariant_def)
      ultimately show "running ?s' (g_taskID h) \<noteq> None" by (simp add: ru)
    qed
    show "distinct (map g_taskID (goroutines ?s'))"
      unfolding go using assms by (simp add: in_flight_invariant_def distinct_map_filter)
  qed
qed

lemma run_events_invariant:
  assumes "in_flight_invariant s" and "\<not> list_ex is_cancel evs"
  shows "in_flight_invariant (snd (run_events U evs s))"
  using assms
proof (induction evs arbitrary: s)
  case Nil
  then show ?case by simp
next
  case (Cons ev evs)
  obtain r s1 where st: "step U ev s = (r, s1)" by (cases "step U ev s")
  have "in_flight_invariant s1"
  proof (cases ev)
    case (Call_ExecuteTask taskID now)
    then show ?thesis using st ExecuteTask_invariant[OF Cons.prems(1), of taskID now] by simp
  next
    case (Call_CancelTask taskID)
    then show ?thesis using Cons.prems(2) by simp
  next
    case (Goroutine_exits eid result now)
    then show ?thesis using st goroutine_exit_invariant[OF Cons.prems(1), of U eid result now]
      by auto
  qed
  moreover have "\<not> list_ex is_cancel evs" using Cons.prems(2) by simp
  ultimately have "in_flight_invariant (snd (run_events U evs s1))" by (rule Cons.IH)
  then show ?case using st by (cases "run_events U evs s1") simp
qed

lemma at_most_one_running_without_cancel:
  assumes "in_flight_invariant s" and "\<not> list_ex is_cancel evs"
  shows "length (running_executions (snd (run_events U evs s)) taskID) \<le> 1"
  using invariant_bounds_running[OF run_events_invariant[OF assms]] .

lemma example_scheduler_invariant: "in_flight_invariant example_scheduler"
  by (simp add: in_flight_invariant_def example_scheduler_def example_sync_task_def)

text \<open>
  Claim C8 at a failing input. A task is started, cancelled while its goroutine is
  still running, and started again: \<open>CancelTask\<close> has already removed the entry from
  the running map, so the second \<open>ExecuteTask\<close> returns nil and the task has two
  executions with status running.
\<close>

theorem restart_after_cancel_runs_twice:
  "fst (run_events example_ids
      [Call_ExecuteTask 1 100, Call_CancelTask 1, Call_ExecuteTask 1 300] example_scheduler) =
     [None, None, None]
   \<and> map ID (running_executions (snd (run_events example_ids
      [Call_ExecuteTask 1 100, Call_CancelTask 1, Call_ExecuteTask 1 300] example_scheduler)) 1) =
     [1, 2]"
  by code_simp
end
